theory Spec2Isabelle
  imports Complex_Main
begin

section \<open>The consent registry of \<open>mock_blockchain.py\<close>\<close>

text \<open>
  Python \<open>str\<close> is \<open>string\<close>; Python \<open>bytes\<close> is a list of \<open>char\<close> (one \<open>char\<close> is one
  byte). \<open>time.time()\<close> is a reading of the wall clock: every operation takes a function
  \<open>tm\<close> whose value at \<open>k\<close> is the \<open>k\<close>-th reading made during the call. The execution time
  that every operation returns (a difference of \<open>time.perf_counter()\<close> readings) is not
  modelled: an operation that returns normally returns \<open>()\<close>.
\<close>

type_synonym bytes = "char list"
type_synonym timestamp = real

datatype Role = PATIENT | DOCTOR | VIEWER

fun Role_value :: "Role \<Rightarrow> string" where
  "Role_value PATIENT = ''Patient''"
| "Role_value DOCTOR = ''Doctor''"
| "Role_value VIEWER = ''Viewer''"

record User =
  user_id :: string
  role :: Role
  public_key :: bytes
  registered_at :: timestamp

record Record =
  record_id :: string
  owner_vid :: string
  uploader_vid :: string
  cid :: string
  hash :: string
  stored_at :: timestamp

text \<open>The fields of \<open>Consent\<close> that share a name with a field of \<open>Record\<close> carry the prefix \<open>c_\<close>.\<close>

record Consent =
  c_owner_vid :: string
  c_viewer_vid :: string
  c_record_id :: string
  status :: string
  capsule_cid :: "string option"
  capsule_hash :: "string option"
  created_at :: timestamp
  updated_at :: timestamp

record AuditEntry =
  timestamp :: timestamp
  action :: string
  details :: "(string \<times> string) list"

record MockBlockchain =
  users :: "string \<rightharpoonup> User"
  records :: "string \<rightharpoonup> Record"
  consents :: "string \<rightharpoonup> Consent"
  audit_log :: "AuditEntry list"

text \<open>Every \<open>raise\<close> of the source is a value; the argument is the message.\<close>

datatype error =
    ValueError string
  | FileNotFoundError string
  | DeserializationError string
  | IndexError string
  | IpfsError string
  | VerificationError string
  | DecryptionError string

definition reset :: MockBlockchain where
  "reset = \<lparr>users = Map.empty, records = Map.empty, consents = Map.empty, audit_log = []\<rparr>"

definition log_audit :: "timestamp \<Rightarrow> string \<Rightarrow> (string \<times> string) list \<Rightarrow> MockBlockchain \<Rightarrow> MockBlockchain" where
  "log_audit t a d s = s\<lparr>audit_log := audit_log s @ [\<lparr>timestamp = t, action = a, details = d\<rparr>]\<rparr>"

definition register_user ::
  "(nat \<Rightarrow> timestamp) \<Rightarrow> string \<Rightarrow> Role \<Rightarrow> bytes \<Rightarrow> MockBlockchain \<Rightarrow> (error + unit) \<times> MockBlockchain" where
  "register_user tm uid rl pk s =
     (if users s uid \<noteq> None
      then (Inl (ValueError (''User '' @ uid @ '' already registered'')), s)
      else (Inr (),
            log_audit (tm 1) ''registration'' [(''user_id'', uid), (''role'', Role_value rl)]
              (s\<lparr>users := (users s)(uid \<mapsto>
                   \<lparr>user_id = uid, role = rl, public_key = pk, registered_at = tm 0\<rparr>)\<rparr>)))"

definition store_record ::
  "(nat \<Rightarrow> timestamp) \<Rightarrow> string \<Rightarrow> string \<Rightarrow> string \<Rightarrow> string \<Rightarrow> string \<Rightarrow> MockBlockchain
     \<Rightarrow> (error + unit) \<times> MockBlockchain" where
  "store_record tm rid owner uploader c file_hash s =
     (if records s rid \<noteq> None
      then (Inl (ValueError (''Record '' @ rid @ '' already exists'')), s)
      else (Inr (),
            log_audit (tm 1) ''store_record''
              [(''record_id'', rid), (''owner_vid'', owner), (''uploader_vid'', uploader), (''cid'', c)]
              (s\<lparr>records := (records s)(rid \<mapsto>
                   \<lparr>record_id = rid, owner_vid = owner, uploader_vid = uploader, cid = c,
                    hash = file_hash, stored_at = tm 0\<rparr>)\<rparr>)))"

definition get_record :: "MockBlockchain \<Rightarrow> string \<Rightarrow> Record option" where
  "get_record s rid = records s rid"

text \<open>The key of a consent entry is the f-string \<open>f"{owner_vid}:{viewer_vid}:{record_id}"\<close>.\<close>

definition consent_key :: "string \<Rightarrow> string \<Rightarrow> string \<Rightarrow> string" where
  "consent_key owner viewer rid = owner @ '':'' @ viewer @ '':'' @ rid"

definition request_access ::
  "(nat \<Rightarrow> timestamp) \<Rightarrow> string \<Rightarrow> string \<Rightarrow> string \<Rightarrow> MockBlockchain \<Rightarrow> (error + unit) \<times> MockBlockchain" where
  "request_access tm owner viewer rid s =
     (let key = consent_key owner viewer rid in
      if consents s key \<noteq> None
      then (Inl (ValueError (''Consent already exists for '' @ key)), s)
      else (Inr (),
            log_audit (tm 2) ''request_access''
              [(''owner_vid'', owner), (''viewer_vid'', viewer), (''record_id'', rid)]
              (s\<lparr>consents := (consents s)(key \<mapsto>
                   \<lparr>c_owner_vid = owner, c_viewer_vid = viewer, c_record_id = rid,
                    status = ''requested'', capsule_cid = None, capsule_hash = None,
                    created_at = tm 0, updated_at = tm 1\<rparr>)\<rparr>)))"

definition approve_access ::
  "(nat \<Rightarrow> timestamp) \<Rightarrow> string \<Rightarrow> string \<Rightarrow> string \<Rightarrow> string \<Rightarrow> string \<Rightarrow> MockBlockchain
     \<Rightarrow> (error + unit) \<times> MockBlockchain" where
  "approve_access tm owner viewer rid ccid chash s =
     (let key = consent_key owner viewer rid in
      case consents s key of
        None \<Rightarrow> (Inl (ValueError (''Consent not found for '' @ key)), s)
      | Some consent \<Rightarrow>
          (Inr (),
           log_audit (tm 1) ''approve_access''
             [(''owner_vid'', owner), (''viewer_vid'', viewer), (''record_id'', rid),
              (''capsule_cid'', ccid)]
             (s\<lparr>consents := (consents s)(key \<mapsto>
                  consent\<lparr>status := ''approved'', capsule_cid := Some ccid,
                          capsule_hash := Some chash, updated_at := tm 0\<rparr>)\<rparr>)))"

definition revoke_access ::
  "(nat \<Rightarrow> timestamp) \<Rightarrow> string \<Rightarrow> string \<Rightarrow> string \<Rightarrow> MockBlockchain \<Rightarrow> (error + unit) \<times> MockBlockchain" where
  "revoke_access tm owner viewer rid s =
     (let key = consent_key owner viewer rid in
      case consents s key of
        None \<Rightarrow> (Inl (ValueError (''Consent not found for '' @ key)), s)
      | Some consent \<Rightarrow>
          (Inr (),
           log_audit (tm 1) ''revoke_access''
             [(''owner_vid'', owner), (''viewer_vid'', viewer), (''record_id'', rid)]
             (s\<lparr>consents := (consents s)(key \<mapsto>
                  consent\<lparr>status := ''revoked'', capsule_cid := None,
                          capsule_hash := None, updated_at := tm 0\<rparr>)\<rparr>)))"

definition get_consent :: "MockBlockchain \<Rightarrow> string \<Rightarrow> string \<Rightarrow> string \<Rightarrow> Consent option" where
  "get_consent s owner viewer rid = consents s (consent_key owner viewer rid)"

section \<open>The external collaborators\<close>

text \<open>
  The PRE library (umbral) is not part of the repository: it is a parameter \<open>lib\<close>, a record
  of the functions that \<open>crypto_utils.py\<close> calls. Its objects (secret key, public key,
  capsule, key fragment, capsule fragment, verified capsule fragment) are type parameters.
  A library call that raises returns \<open>None\<close>. The randomised calls take their random coins
  as a first argument. \<open>signing.Signer(sk)\<close> is represented by \<open>sk\<close> itself.
\<close>

record ('sk, 'pk, 'cap, 'kf, 'cf, 'vcf) umbral =
  SecretKey_random :: "nat \<Rightarrow> 'sk"
  sk_public_key :: "'sk \<Rightarrow> 'pk"
  sk_to_secret_bytes :: "'sk \<Rightarrow> bytes"
  SecretKey_from_bytes :: "bytes \<Rightarrow> 'sk option"
  pk_to_bytes :: "'pk \<Rightarrow> bytes"
  PublicKey_from_bytes :: "bytes \<Rightarrow> 'pk option"
  pre_encrypt :: "nat \<Rightarrow> 'pk \<Rightarrow> bytes \<Rightarrow> 'cap \<times> bytes"
  capsule_to_bytes :: "'cap \<Rightarrow> bytes"
  Capsule_from_bytes :: "bytes \<Rightarrow> 'cap option"
  pre_generate_kfrags :: "nat \<Rightarrow> 'sk \<Rightarrow> 'sk \<Rightarrow> 'pk \<Rightarrow> nat \<Rightarrow> nat \<Rightarrow> 'kf list"
  pre_reencrypt :: "'kf \<Rightarrow> 'cap \<Rightarrow> 'cf"
  cfrag_to_bytes :: "'cf \<Rightarrow> bytes"
  CapsuleFrag_from_bytes :: "bytes \<Rightarrow> 'cf option"
  cfrag_verify :: "'cf \<Rightarrow> 'cap \<Rightarrow> 'pk \<Rightarrow> 'pk \<Rightarrow> 'pk \<Rightarrow> 'vcf option"
  pre_decrypt_original :: "'sk \<Rightarrow> 'cap \<Rightarrow> bytes \<Rightarrow> bytes option"
  pre_decrypt_reencrypted :: "'sk \<Rightarrow> 'pk \<Rightarrow> 'cap \<Rightarrow> 'vcf list \<Rightarrow> bytes \<Rightarrow> bytes option"

text \<open>
  Every call of \<open>phase7_data_retrieval_decryption\<close> and \<open>decrypt_with_cfrag\<close> to a
  collaborator (the content store, the hash, the key files, the PRE library) is logged as
  an event, in the order of the source, so that "before" and "never reached" are statements
  about the trace of a run.
\<close>

datatype ('sk, 'pk, 'cap, 'cf, 'vcf) event =
    Ev_ipfs_cat "string option"
  | Ev_compute_hash bytes
  | Ev_load_private_key string
  | Ev_load_public_key string
  | Ev_Capsule_from_bytes bytes
  | Ev_CapsuleFrag_from_bytes bytes
  | Ev_public_key 'sk
  | Ev_verify 'cf 'cap 'pk 'pk 'pk "'vcf option"
  | Ev_decrypt_reencrypted 'sk 'pk 'cap "'vcf list" bytes "bytes option"

definition io_call :: "'ev \<Rightarrow> error + 'a \<Rightarrow> 'ev list \<times> (error + 'a)" where
  "io_call ev r = ([ev], r)"

definition io_bind ::
  "'ev list \<times> (error + 'a) \<Rightarrow> ('a \<Rightarrow> 'ev list \<times> (error + 'b)) \<Rightarrow> 'ev list \<times> (error + 'b)" where
  "io_bind m f =
     (case m of
        (tr, Inl e) \<Rightarrow> (tr, Inl e)
      | (tr, Inr x) \<Rightarrow> (case f x of (tr', r) \<Rightarrow> (tr @ tr', r)))"

section \<open>\<open>CryptoManager\<close> of \<open>crypto_utils.py\<close>\<close>

text \<open>
  The two maps are the key files as \<open>load_public_key\<close> and \<open>load_private_key\<close> find them:
  at a user id, the content of \<open>keys_dir / user_id / private_key.umbral\<close> (or
  \<open>public_key.umbral\<close>) when that file exists. The phases modelled here only read them.
\<close>

record CryptoManager =
  private_key_file :: "string \<rightharpoonup> bytes"
  public_key_file :: "string \<rightharpoonup> bytes"

definition load_public_key ::
  "('sk, 'pk, 'cap, 'kf, 'cf, 'vcf) umbral \<Rightarrow> CryptoManager \<Rightarrow> string \<Rightarrow> error + 'pk" where
  "load_public_key lib cm uid =
     (case public_key_file cm uid of
        None \<Rightarrow> Inl (FileNotFoundError (''Public key not found for '' @ uid))
      | Some b \<Rightarrow>
          (case PublicKey_from_bytes lib b of
             None \<Rightarrow> Inl (DeserializationError ''PublicKey'')
           | Some pk \<Rightarrow> Inr pk))"

definition load_private_key ::
  "('sk, 'pk, 'cap, 'kf, 'cf, 'vcf) umbral \<Rightarrow> CryptoManager \<Rightarrow> string \<Rightarrow> error + 'sk" where
  "load_private_key lib cm uid =
     (case private_key_file cm uid of
        None \<Rightarrow> Inl (FileNotFoundError (''Private key not found for '' @ uid))
      | Some b \<Rightarrow>
          (case SecretKey_from_bytes lib b of
             None \<Rightarrow> Inl (DeserializationError ''SecretKey'')
           | Some sk \<Rightarrow> Inr sk))"

definition encrypt ::
  "('sk, 'pk, 'cap, 'kf, 'cf, 'vcf) umbral \<Rightarrow> nat \<Rightarrow> bytes \<Rightarrow> 'pk \<Rightarrow> bytes \<times> bytes" where
  "encrypt lib coins data recipient_public_key =
     (case pre_encrypt lib coins recipient_public_key data of
        (capsule, ciphertext) \<Rightarrow> (ciphertext, capsule_to_bytes lib capsule))"

definition generate_reencryption_key ::
  "('sk, 'pk, 'cap, 'kf, 'cf, 'vcf) umbral \<Rightarrow> nat \<Rightarrow> 'sk \<Rightarrow> 'pk \<Rightarrow> 'kf list" where
  "generate_reencryption_key lib coins owner_private_key viewer_public_key =
     pre_generate_kfrags lib coins owner_private_key owner_private_key viewer_public_key 1 1"

definition reencrypt ::
  "('sk, 'pk, 'cap, 'kf, 'cf, 'vcf) umbral \<Rightarrow> bytes \<Rightarrow> 'kf list \<Rightarrow> error + bytes" where
  "reencrypt lib capsule_bytes kfrags =
     (case Capsule_from_bytes lib capsule_bytes of
        None \<Rightarrow> Inl (DeserializationError ''Capsule'')
      | Some capsule \<Rightarrow>
          (case kfrags of
             [] \<Rightarrow> Inl (IndexError ''list index out of range'')
           | kfrag # _ \<Rightarrow> Inr (cfrag_to_bytes lib (pre_reencrypt lib kfrag capsule))))"

definition decrypt_with_cfrag ::
  "('sk, 'pk, 'cap, 'kf, 'cf, 'vcf) umbral \<Rightarrow> bytes \<Rightarrow> bytes \<Rightarrow> bytes \<Rightarrow> 'sk \<Rightarrow> 'pk
     \<Rightarrow> ('sk, 'pk, 'cap, 'cf, 'vcf) event list \<times> (error + bytes)" where
  "decrypt_with_cfrag lib ciphertext original_capsule_bytes cfrag_bytes viewer_private_key
       owner_public_key =
     io_bind (io_call (Ev_Capsule_from_bytes original_capsule_bytes)
                (case Capsule_from_bytes lib original_capsule_bytes of
                   None \<Rightarrow> Inl (DeserializationError ''Capsule'') | Some c \<Rightarrow> Inr c))
       (\<lambda>capsule.
     io_bind (io_call (Ev_CapsuleFrag_from_bytes cfrag_bytes)
                (case CapsuleFrag_from_bytes lib cfrag_bytes of
                   None \<Rightarrow> Inl (DeserializationError ''CapsuleFrag'') | Some c \<Rightarrow> Inr c))
       (\<lambda>cfrag.
     io_bind (io_call (Ev_public_key viewer_private_key)
                (Inr (sk_public_key lib viewer_private_key)))
       (\<lambda>viewer_public_key.
     io_bind (let v = cfrag_verify lib cfrag capsule owner_public_key owner_public_key
                        viewer_public_key
              in io_call (Ev_verify cfrag capsule owner_public_key owner_public_key
                            viewer_public_key v)
                   (case v of
                      None \<Rightarrow> Inl (VerificationError ''cfrag'') | Some vc \<Rightarrow> Inr vc))
       (\<lambda>verified_cfrag.
          (let p = pre_decrypt_reencrypted lib viewer_private_key owner_public_key capsule
                     [verified_cfrag] ciphertext
           in io_call (Ev_decrypt_reencrypted viewer_private_key owner_public_key capsule
                         [verified_cfrag] ciphertext p)
                (case p of
                   None \<Rightarrow> Inl (DecryptionError ''decrypt_reencrypted'')
                 | Some plaintext \<Rightarrow> Inr plaintext))))))"

text \<open>\<open>compute_hash\<close> is SHA-256 in hexadecimal; the hash function is the parameter \<open>H\<close>.\<close>

definition compute_hash :: "(bytes \<Rightarrow> string) \<Rightarrow> bytes \<Rightarrow> string" where
  "compute_hash H data = H data"

section \<open>\<open>IPFSManager\<close> of \<open>ipfs_manager.py\<close>\<close>

text \<open>
  The content store is a map from content identifier to blob. \<open>client.add_bytes\<close> names a
  blob by the parameter \<open>cidf\<close>. Pinning and the MFS directory entries of \<open>upload\<close> only label
  the blob, and their failures are caught and printed; they are not modelled, and neither
  are the file names. \<open>client.cat\<close> of an unknown identifier raises.
\<close>

definition upload :: "(bytes \<Rightarrow> string) \<Rightarrow> bytes \<Rightarrow> (string \<rightharpoonup> bytes) \<Rightarrow> string \<times> (string \<rightharpoonup> bytes)" where
  "upload cidf data store = (cidf data, store(cidf data \<mapsto> data))"

definition download :: "(string \<rightharpoonup> bytes) \<Rightarrow> string option \<Rightarrow> error + bytes" where
  "download store c =
     (case c of
        None \<Rightarrow> Inl (IpfsError ''None'')
      | Some i \<Rightarrow> (case store i of None \<Rightarrow> Inl (IpfsError i) | Some data \<Rightarrow> Inr data))"

section \<open>\<open>PhaseSimulator\<close> of \<open>phase_simulator.py\<close>\<close>

text \<open>
  The state of the simulator: the registry, the key directory of its \<open>CryptoManager\<close>, the
  content store behind its \<open>IPFSManager\<close>, and the dictionary \<open>capsule_storage\<close> of retained
  original capsules. The dictionaries that the phases return keep their functional entries;
  the constant \<open>'phase'\<close> label, the timings and the MFS paths are left out.
\<close>

record PhaseSimulator =
  blockchain :: MockBlockchain
  crypto :: CryptoManager
  ipfs :: "string \<rightharpoonup> bytes"
  capsule_storage :: "string \<rightharpoonup> bytes"

record Phase2Result =
  ciphertext :: bytes
  capsule :: bytes
  cipher_hash :: string
  data_size_bytes :: nat

record Phase3Result =
  original_cid :: string
  encrypted_cid :: string
  original_size_bytes :: nat
  encrypted_size_bytes :: nat

record Phase6Result =
  p6_owner_vid :: string
  p6_viewer_vid :: string
  p6_record_id :: string
  p6_capsule_cid :: string
  p6_capsule_hash :: string
  cfrag :: bytes

record Phase7Result =
  p7_viewer_vid :: string
  p7_record_id :: string
  plaintext_size_bytes :: nat

text \<open>
  \<open>record_id if record_id else patient_id\<close>: the default \<open>None\<close> and the empty string are
  both false.
\<close>

definition phase2_data_encryption ::
  "('sk, 'pk, 'cap, 'kf, 'cf, 'vcf) umbral \<Rightarrow> (bytes \<Rightarrow> string) \<Rightarrow> nat \<Rightarrow> bytes \<Rightarrow> string
     \<Rightarrow> string option \<Rightarrow> PhaseSimulator \<Rightarrow> (error + Phase2Result) \<times> PhaseSimulator" where
  "phase2_data_encryption lib H coins data patient_id rid sim =
     (case load_public_key lib (crypto sim) patient_id of
        Inl e \<Rightarrow> (Inl e, sim)
      | Inr patient_pub_key \<Rightarrow>
          (case encrypt lib coins data patient_pub_key of
             (ct, cap) \<Rightarrow>
               (let chash = compute_hash H ct;
                    storage_key = (case rid of
                                     None \<Rightarrow> patient_id
                                   | Some r \<Rightarrow> if r \<noteq> [] then r else patient_id)
                in (Inr \<lparr>ciphertext = ct, capsule = cap, cipher_hash = chash,
                         data_size_bytes = length data\<rparr>,
                    sim\<lparr>capsule_storage := (capsule_storage sim)(storage_key \<mapsto> cap)\<rparr>))))"

definition phase3_ipfs_storage ::
  "(bytes \<Rightarrow> string) \<Rightarrow> bytes \<Rightarrow> bytes \<Rightarrow> PhaseSimulator \<Rightarrow> Phase3Result \<times> PhaseSimulator" where
  "phase3_ipfs_storage cidf ct original_data sim =
     (case upload cidf original_data (ipfs sim) of
        (ocid, store1) \<Rightarrow>
          (case upload cidf ct store1 of
             (ecid, store2) \<Rightarrow>
               (\<lparr>original_cid = ocid, encrypted_cid = ecid,
                 original_size_bytes = length original_data,
                 encrypted_size_bytes = length ct\<rparr>,
                sim\<lparr>ipfs := store2\<rparr>)))"

definition phase4_onchain_storage ::
  "(nat \<Rightarrow> timestamp) \<Rightarrow> string \<Rightarrow> string \<Rightarrow> string \<Rightarrow> string \<Rightarrow> string \<Rightarrow> PhaseSimulator
     \<Rightarrow> (error + unit) \<times> PhaseSimulator" where
  "phase4_onchain_storage tm rid owner uploader c chash sim =
     (case store_record tm rid owner uploader c chash (blockchain sim) of
        (r, bc) \<Rightarrow> (r, sim\<lparr>blockchain := bc\<rparr>))"

definition phase5_access_request ::
  "(nat \<Rightarrow> timestamp) \<Rightarrow> string \<Rightarrow> string \<Rightarrow> string \<Rightarrow> PhaseSimulator
     \<Rightarrow> (error + unit) \<times> PhaseSimulator" where
  "phase5_access_request tm owner viewer rid sim =
     (case request_access tm owner viewer rid (blockchain sim) of
        (r, bc) \<Rightarrow> (r, sim\<lparr>blockchain := bc\<rparr>))"

definition phase6_consent_approval_pre ::
  "('sk, 'pk, 'cap, 'kf, 'cf, 'vcf) umbral \<Rightarrow> (bytes \<Rightarrow> string) \<Rightarrow> (bytes \<Rightarrow> string) \<Rightarrow> nat
     \<Rightarrow> (nat \<Rightarrow> timestamp) \<Rightarrow> string \<Rightarrow> string \<Rightarrow> string \<Rightarrow> bytes option \<Rightarrow> PhaseSimulator
     \<Rightarrow> (error + Phase6Result) \<times> PhaseSimulator" where
  "phase6_consent_approval_pre lib H cidf coins tm owner viewer rid original_capsule sim =
     (case (case original_capsule of
              Some c \<Rightarrow> Some c
            | None \<Rightarrow> capsule_storage sim rid) of
        None \<Rightarrow> (Inl (ValueError (''Original capsule not found for record '' @ rid)), sim)
      | Some oc \<Rightarrow>
          (case load_private_key lib (crypto sim) owner of
             Inl e \<Rightarrow> (Inl e, sim)
           | Inr owner_priv_key \<Rightarrow>
               (case load_public_key lib (crypto sim) viewer of
                  Inl e \<Rightarrow> (Inl e, sim)
                | Inr viewer_pub_key \<Rightarrow>
                    (case reencrypt lib oc
                            (generate_reencryption_key lib coins owner_priv_key viewer_pub_key) of
                       Inl e \<Rightarrow> (Inl e, sim)
                     | Inr transformed_capsule \<Rightarrow>
                         (case upload cidf transformed_capsule (ipfs sim) of
                            (ccid, store1) \<Rightarrow>
                              (let chash = compute_hash H transformed_capsule in
                               case approve_access tm owner viewer rid ccid chash
                                      (blockchain sim) of
                                 (Inl e, bc) \<Rightarrow> (Inl e, sim\<lparr>ipfs := store1, blockchain := bc\<rparr>)
                               | (Inr u, bc) \<Rightarrow>
                                   (Inr \<lparr>p6_owner_vid = owner, p6_viewer_vid = viewer,
                                         p6_record_id = rid, p6_capsule_cid = ccid,
                                         p6_capsule_hash = chash,
                                         cfrag = transformed_capsule\<rparr>,
                                    sim\<lparr>ipfs := store1, blockchain := bc\<rparr>)))))))"

definition phase7_data_retrieval_decryption ::
  "('sk, 'pk, 'cap, 'kf, 'cf, 'vcf) umbral \<Rightarrow> (bytes \<Rightarrow> string) \<Rightarrow> string \<Rightarrow> string \<Rightarrow> string
     \<Rightarrow> bytes option \<Rightarrow> PhaseSimulator
     \<Rightarrow> ('sk, 'pk, 'cap, 'cf, 'vcf) event list \<times> (error + Phase7Result)" where
  "phase7_data_retrieval_decryption lib H viewer rid owner original_capsule sim =
     (case get_consent (blockchain sim) owner viewer rid of
        None \<Rightarrow>
          ([], Inl (ValueError (''Consent not approved for '' @ owner @ '':'' @ viewer @ '':'' @ rid)))
      | Some consent \<Rightarrow>
          if status consent \<noteq> ''approved''
          then ([], Inl (ValueError
                          (''Consent not approved for '' @ owner @ '':'' @ viewer @ '':'' @ rid)))
          else
            (case get_record (blockchain sim) rid of
               None \<Rightarrow> ([], Inl (ValueError (''Record '' @ rid @ '' not found'')))
             | Some rec \<Rightarrow>
     io_bind (io_call (Ev_ipfs_cat (Some (cid rec))) (download (ipfs sim) (Some (cid rec))))
       (\<lambda>ct.
     io_bind (io_call (Ev_ipfs_cat (capsule_cid consent))
                (download (ipfs sim) (capsule_cid consent)))
       (\<lambda>cfrag_data.
     io_bind (io_call (Ev_compute_hash ct) (Inr (compute_hash H ct)))
       (\<lambda>chash.
     io_bind (io_call (Ev_compute_hash cfrag_data) (Inr (compute_hash H cfrag_data)))
       (\<lambda>cap_hash.
          if chash \<noteq> hash rec then ([], Inl (ValueError ''Ciphertext hash mismatch''))
          else if Some cap_hash \<noteq> capsule_hash consent
          then ([], Inl (ValueError ''Capsule hash mismatch''))
          else
            (case (case original_capsule of
                     Some c \<Rightarrow> Some c
                   | None \<Rightarrow> capsule_storage sim rid) of
               None \<Rightarrow> ([], Inl (ValueError (''Original capsule not found for record '' @ rid)))
             | Some oc \<Rightarrow>
     io_bind (io_call (Ev_load_private_key viewer) (load_private_key lib (crypto sim) viewer))
       (\<lambda>viewer_priv_key.
     io_bind (io_call (Ev_load_public_key owner) (load_public_key lib (crypto sim) owner))
       (\<lambda>owner_pub_key.
     io_bind (decrypt_with_cfrag lib ct oc cfrag_data viewer_priv_key owner_pub_key)
       (\<lambda>plaintext.
          ([], Inr \<lparr>p7_viewer_vid = viewer, p7_record_id = rid,
                    plaintext_size_bytes = length plaintext\<rparr>)))))))))))"

definition phase8_access_revocation ::
  "(nat \<Rightarrow> timestamp) \<Rightarrow> string \<Rightarrow> string \<Rightarrow> string \<Rightarrow> PhaseSimulator
     \<Rightarrow> (error + unit) \<times> PhaseSimulator" where
  "phase8_access_revocation tm owner viewer rid sim =
     (case revoke_access tm owner viewer rid (blockchain sim) of
        (r, bc) \<Rightarrow> (r, sim\<lparr>blockchain := bc\<rparr>))"

text \<open>A clock for the worked examples: the \<open>k\<close>-th reading is \<open>k\<close>.\<close>

definition clock0 :: "nat \<Rightarrow> timestamp" where
  "clock0 k = real k"

text \<open>Registry states for the worked examples, built by the operations themselves.\<close>

definition bc_example :: MockBlockchain where
  "bc_example =
     snd (request_access clock0 ''O'' ''V'' ''R1''
       (snd (store_record clock0 ''R1'' ''O'' ''D'' ''Qm0'' ''h0''
         (snd (register_user clock0 ''O'' PATIENT ''pkO'' reset)))))"

definition bc_approved :: MockBlockchain where
  "bc_approved = snd (approve_access clock0 ''O'' ''V'' ''R1'' ''Qm1'' ''h1'' bc_example)"

definition bc_revoked :: MockBlockchain where
  "bc_revoked = snd (revoke_access clock0 ''O'' ''V'' ''R1'' bc_approved)"

section \<open>Sequences of registry calls\<close>

text \<open>
  A caller changes the registry only through its five mutating methods. A history of the
  registry is a list of such calls, each with the clock it ran under; a call that raises
  leaves the registry as it was and the history goes on.
\<close>

datatype operation =
    Register string Role bytes
  | Store string string string string string
  | Request string string string
  | Approve string string string string string
  | Revoke string string string

fun apply_operation ::
  "(nat \<Rightarrow> timestamp) \<Rightarrow> operation \<Rightarrow> MockBlockchain \<Rightarrow> (error + unit) \<times> MockBlockchain" where
  "apply_operation tm (Register uid rl pk) s = register_user tm uid rl pk s"
| "apply_operation tm (Store rid owner uploader c h) s = store_record tm rid owner uploader c h s"
| "apply_operation tm (Request owner viewer rid) s = request_access tm owner viewer rid s"
| "apply_operation tm (Approve owner viewer rid c h) s = approve_access tm owner viewer rid c h s"
| "apply_operation tm (Revoke owner viewer rid) s = revoke_access tm owner viewer rid s"

fun run_operations :: "((nat \<Rightarrow> timestamp) \<times> operation) list \<Rightarrow> MockBlockchain \<Rightarrow> MockBlockchain" where
  "run_operations [] s = s"
| "run_operations ((tm, x) # xs) s = run_operations xs (snd (apply_operation tm x s))"

fun approves :: "string \<Rightarrow> operation \<Rightarrow> bool" where
  "approves key (Approve owner viewer rid c h) = (consent_key owner viewer rid = key)"
| "approves key x = False"

section \<open>Reading a trace\<close>

fun is_decrypt_event :: "('sk, 'pk, 'cap, 'cf, 'vcf) event \<Rightarrow> bool" where
  "is_decrypt_event (Ev_decrypt_reencrypted sk dk cap vs ct p) = True"
| "is_decrypt_event e = False"

fun returns_plaintext :: "('sk, 'pk, 'cap, 'cf, 'vcf) event \<Rightarrow> bool" where
  "returns_plaintext (Ev_decrypt_reencrypted sk dk cap vs ct (Some p)) = True"
| "returns_plaintext e = False"

text \<open>
  \<open>decrypts_only_verified lib acc tr\<close>: every fragment that a decryption call of \<open>tr\<close> is given
  was returned by an earlier successful verification call of \<open>tr\<close> (or is in \<open>acc\<close>), for the
  same capsule, the same delegating key, and the public key of the decrypting secret key
  as receiving key.
\<close>

fun decrypts_only_verified ::
  "('sk, 'pk, 'cap, 'kf, 'cf, 'vcf) umbral \<Rightarrow> ('vcf \<times> 'cap \<times> 'pk \<times> 'pk) list
     \<Rightarrow> ('sk, 'pk, 'cap, 'cf, 'vcf) event list \<Rightarrow> bool" where
  "decrypts_only_verified lib acc [] = True"
| "decrypts_only_verified lib acc (Ev_verify cf cap vk dk rk (Some v) # es) =
     decrypts_only_verified lib ((v, cap, dk, rk) # acc) es"
| "decrypts_only_verified lib acc (Ev_decrypt_reencrypted sk dk cap vs ct p # es) =
     ((\<forall>v \<in> set vs. (v, cap, dk, sk_public_key lib sk) \<in> set acc) \<and>
      decrypts_only_verified lib acc es)"
| "decrypts_only_verified lib acc (e # es) = decrypts_only_verified lib acc es"

fun is_crypto_event :: "('sk, 'pk, 'cap, 'cf, 'vcf) event \<Rightarrow> bool" where
  "is_crypto_event (Ev_verify cf cap vk dk rk v) = True"
| "is_crypto_event (Ev_decrypt_reencrypted sk dk cap vs ct p) = True"
| "is_crypto_event e = False"

section \<open>The contract of the PRE library\<close>

text \<open>
  Modelled from the spec: the PRE capability contract that the design consumes (sections 4.2,
  6 and 8), for the umbral library, which is not part of the repository. A serialised
  capsule or fragment deserialises to itself; key generation with threshold 1 and 1 share
  returns at least one key fragment; a fragment re-encrypted from the capsule of an
  encryption under the delegating key verifies against that capsule and decrypts, with the
  receiving secret key, to the plaintext; a fragment re-encrypted from a different capsule
  fails verification; and decryption with fragments fails when the capsule is not the one
  that the encryption produced together with the ciphertext.
\<close>

definition pre_contract :: "('sk, 'pk, 'cap, 'kf, 'cf, 'vcf) umbral \<Rightarrow> bool" where
  "pre_contract lib \<longleftrightarrow>
     (\<forall>cap. Capsule_from_bytes lib (capsule_to_bytes lib cap) = Some cap) \<and>
     (\<forall>cf. CapsuleFrag_from_bytes lib (cfrag_to_bytes lib cf) = Some cf) \<and>
     (\<forall>c sk pk. pre_generate_kfrags lib c sk sk pk 1 1 \<noteq> []) \<and>
     (\<forall>c1 c2 sk_d sk_r P cap ct kf.
        pre_encrypt lib c1 (sk_public_key lib sk_d) P = (cap, ct) \<and>
        kf \<in> set (pre_generate_kfrags lib c2 sk_d sk_d (sk_public_key lib sk_r) 1 1) \<longrightarrow>
        (\<exists>v. cfrag_verify lib (pre_reencrypt lib kf cap) cap (sk_public_key lib sk_d)
                (sk_public_key lib sk_d) (sk_public_key lib sk_r) = Some v \<and>
             pre_decrypt_reencrypted lib sk_r (sk_public_key lib sk_d) cap [v] ct = Some P)) \<and>
     (\<forall>kf cap cap' vk dk rk.
        cap' \<noteq> cap \<longrightarrow> cfrag_verify lib (pre_reencrypt lib kf cap') cap vk dk rk = None) \<and>
     (\<forall>c1 pk P cap ct cap' sk dk vs.
        pre_encrypt lib c1 pk P = (cap, ct) \<and> cap' \<noteq> cap \<longrightarrow>
        pre_decrypt_reencrypted lib sk dk cap' vs ct = None)"

section \<open>A toy instance of the collaborators, for the worked examples\<close>

text \<open>
  A library without any security, whose objects are strings: the public key of \<open>sk\<close> is
  \<open>P\<close> followed by \<open>sk\<close>, the capsule is the recipient's key followed by the coins, the
  ciphertext is the plaintext reversed, and the fragment of a capsule is \<open>F\<close> followed by the
  capsule.
\<close>

definition toy_umbral :: "(string, string, string, string \<times> string, string, string) umbral" where
  "toy_umbral =
     \<lparr>SecretKey_random = (\<lambda>n. replicate (Suc n) CHR ''s''),
      sk_public_key = (\<lambda>sk. CHR ''P'' # sk),
      sk_to_secret_bytes = (\<lambda>sk. sk),
      SecretKey_from_bytes = Some,
      pk_to_bytes = (\<lambda>pk. pk),
      PublicKey_from_bytes = Some,
      pre_encrypt = (\<lambda>c pk data. (pk @ replicate c CHR ''r'', rev data)),
      capsule_to_bytes = (\<lambda>cap. cap),
      Capsule_from_bytes = Some,
      pre_generate_kfrags = (\<lambda>c sk signer pk t n. replicate n (CHR ''P'' # sk, pk)),
      pre_reencrypt = (\<lambda>kf cap. CHR ''F'' # cap),
      cfrag_to_bytes = (\<lambda>cf. cf),
      CapsuleFrag_from_bytes = Some,
      cfrag_verify = (\<lambda>cf cap vk dk rk. if cf = CHR ''F'' # cap then Some cf else None),
      pre_decrypt_original = (\<lambda>sk cap ct. Some (rev ct)),
      pre_decrypt_reencrypted =
        (\<lambda>sk dk cap vs ct. if vs = [CHR ''F'' # cap] then Some (rev ct) else None)\<rparr>"

text \<open>
  The same library with the capsule tied to the ciphertext: the capsule of an encryption is
  the ciphertext itself, and decryption with fragments refuses a capsule that is not the
  ciphertext. This instance meets the whole contract.
\<close>

definition toy_bound :: "(string, string, string, string \<times> string, string, string) umbral" where
  "toy_bound =
     toy_umbral
       \<lparr>pre_encrypt := (\<lambda>c pk data. (rev data, rev data)),
        pre_decrypt_reencrypted :=
          (\<lambda>sk dk cap vs ct.
             if cap = ct \<and> vs = [CHR ''F'' # cap] then Some (rev ct) else None)\<rparr>"

definition toy_hash :: "bytes \<Rightarrow> string" where
  "toy_hash d = CHR ''h'' # d"

definition toy_cid :: "bytes \<Rightarrow> string" where
  "toy_cid d = ''Qm'' @ d"

text \<open>
  The run of \<open>run_full_simulation\<close> in \<open>simulate.py\<close> on patient \<open>O\<close>, doctor \<open>D\<close>,
  viewer \<open>V\<close>, the record \<open>R1\<close> and the data \<open>hello world\<close>, state by state from the
  second phase on. In \<open>sim1\<close> the three users are registered and their key files hold the
  key pairs of the toy library.
\<close>

definition sim1 :: PhaseSimulator where
  "sim1 =
     \<lparr>blockchain =
        snd (register_user clock0 ''V'' VIEWER ''Psss''
          (snd (register_user clock0 ''D'' DOCTOR ''Pss''
            (snd (register_user clock0 ''O'' PATIENT ''Ps'' reset))))),
      crypto = \<lparr>private_key_file = [''O'' \<mapsto> ''s'', ''D'' \<mapsto> ''ss'', ''V'' \<mapsto> ''sss''],
                public_key_file = [''O'' \<mapsto> ''Ps'', ''D'' \<mapsto> ''Pss'', ''V'' \<mapsto> ''Psss'']\<rparr>,
      ipfs = Map.empty, capsule_storage = Map.empty\<rparr>"

definition sim2 :: PhaseSimulator where
  "sim2 = snd (phase2_data_encryption toy_umbral toy_hash 0 ''hello world'' ''O'' (Some ''R1'') sim1)"

definition sim3 :: PhaseSimulator where
  "sim3 = snd (phase3_ipfs_storage toy_cid ''dlrow olleh'' ''hello world'' sim2)"

definition sim4 :: PhaseSimulator where
  "sim4 = snd (phase4_onchain_storage clock0 ''R1'' ''O'' ''D'' ''Qmdlrow olleh'' ''hdlrow olleh'' sim3)"

definition sim5 :: PhaseSimulator where
  "sim5 = snd (phase5_access_request clock0 ''O'' ''V'' ''R1'' sim4)"

definition sim6 :: PhaseSimulator where
  "sim6 = snd (phase6_consent_approval_pre toy_umbral toy_hash toy_cid 0 clock0
                 ''O'' ''V'' ''R1'' None sim5)"

definition sim8 :: PhaseSimulator where
  "sim8 = snd (phase8_access_revocation clock0 ''O'' ''V'' ''R1'' sim6)"

text \<open>After the revocation, the old fragment reference is approved once more.\<close>

definition sim9 :: PhaseSimulator where
  "sim9 = sim8\<lparr>blockchain :=
             snd (approve_access clock0 ''O'' ''V'' ''R1'' ''QmFPs'' ''hFPs'' (blockchain sim8))\<rparr>"

text \<open>A later history of the registry of \<open>sim8\<close>, without an approval of the revoked key.\<close>

definition sim_later :: PhaseSimulator where
  "sim_later = sim6\<lparr>blockchain :=
      run_operations [(clock0, Request ''O'' ''V'' ''R1''), (clock0, Revoke ''O'' ''V'' ''R1''),
                      (clock0, Approve ''O'' ''W'' ''R1'' ''QmFPs'' ''hFPs''),
                      (clock0, Store ''R2'' ''O'' ''D'' ''Qm0'' ''h0'')]
        (blockchain sim8)\<rparr>"

text \<open>The stored ciphertext of \<open>sim6\<close> with its last byte changed.\<close>

definition sim_corrupt :: PhaseSimulator where
  "sim_corrupt = sim6\<lparr>ipfs := (ipfs sim6)(''Qmdlrow olleh'' \<mapsto> ''dlrow ollex'')\<rparr>"

text \<open>
  The second to fifth phase of the run with the library \<open>toy_bound\<close>; then the approval with
  the retained capsule, and the approval that is handed \<open>zyx\<close>, the capsule of another
  encryption.
\<close>

definition bsim5 :: PhaseSimulator where
  "bsim5 =
     snd (phase5_access_request clock0 ''O'' ''V'' ''R1''
       (snd (phase4_onchain_storage clock0 ''R1'' ''O'' ''D'' ''Qmdlrow olleh'' ''hdlrow olleh''
         (snd (phase3_ipfs_storage toy_cid ''dlrow olleh'' ''hello world''
           (snd (phase2_data_encryption toy_bound toy_hash 0 ''hello world'' ''O'' (Some ''R1'')
                  sim1)))))))"

definition bsim6 :: PhaseSimulator where
  "bsim6 = snd (phase6_consent_approval_pre toy_bound toy_hash toy_cid 0 clock0
                  ''O'' ''V'' ''R1'' None bsim5)"

definition bsim6x :: PhaseSimulator where
  "bsim6x = snd (phase6_consent_approval_pre toy_bound toy_hash toy_cid 0 clock0
                   ''O'' ''V'' ''R1'' (Some ''zyx'') bsim5)"

text \<open>Encryption without a record id, then a request for the record whose id is the patient's id.\<close>

definition sim2b :: PhaseSimulator where
  "sim2b = snd (phase2_data_encryption toy_umbral toy_hash 0 ''hello world'' ''O'' None sim1)"

definition sim5b :: PhaseSimulator where
  "sim5b = snd (phase5_access_request clock0 ''O'' ''V'' ''O'' sim2b)"

section \<open>Properties of the consent registry\<close>

subsection \<open>The example states\<close>

lemma users_bc_example: "users bc_example = [''O'' \<mapsto> \<lparr>user_id = ''O'', role = PATIENT, public_key = ''pkO'', registered_at = 0\<rparr>]"
  by (simp add: bc_example_def request_access_def store_record_def register_user_def reset_def log_audit_def clock0_def consent_key_def Let_def)

lemma records_bc_example: "records bc_example = [''R1'' \<mapsto> \<lparr>record_id = ''R1'', owner_vid = ''O'', uploader_vid = ''D'', cid = ''Qm0'', hash = ''h0'', stored_at = 0\<rparr>]"
  by (simp add: bc_example_def request_access_def store_record_def register_user_def reset_def log_audit_def clock0_def consent_key_def Let_def)

lemma consents_bc_example: "consents bc_example = [''O:V:R1'' \<mapsto> \<lparr>c_owner_vid = ''O'', c_viewer_vid = ''V'', c_record_id = ''R1'', status = ''requested'', capsule_cid = None, capsule_hash = None, created_at = 0, updated_at = 1\<rparr>]"
  by (simp add: bc_example_def request_access_def store_record_def register_user_def reset_def log_audit_def clock0_def consent_key_def Let_def)

lemma consents_bc_approved: "consents bc_approved = [''O:V:R1'' \<mapsto> \<lparr>c_owner_vid = ''O'', c_viewer_vid = ''V'', c_record_id = ''R1'', status = ''approved'', capsule_cid = Some ''Qm1'', capsule_hash = Some ''h1'', created_at = 0, updated_at = 0\<rparr>]"
  by (simp add: bc_approved_def approve_access_def consents_bc_example log_audit_def clock0_def consent_key_def Let_def)

lemma consents_bc_revoked: "consents bc_revoked = [''O:V:R1'' \<mapsto> \<lparr>c_owner_vid = ''O'', c_viewer_vid = ''V'', c_record_id = ''R1'', status = ''revoked'', capsule_cid = None, capsule_hash = None, created_at = 0, updated_at = 0\<rparr>]"
  by (simp add: bc_revoked_def revoke_access_def consents_bc_approved log_audit_def clock0_def consent_key_def Let_def)

subsection \<open>Approval\<close>




subsection \<open>The key of a consent entry\<close>

text \<open>
  Claim C2 fails on identifiers that contain a colon. The triples \<open>("a:b", "c", "r")\<close> and
  \<open>("a", "b:c", "r")\<close> differ and have the same key \<open>"a:b:c:r"\<close>: after a request on
  the first, \<open>get_consent\<close> on the second returns the entry of the first, a request on the
  second is rejected as a duplicate, and a revocation on the second revokes the entry of the
  first.
\<close>

theorem consent_key_collision:
  "(''a:b'', ''c'', ''r'') \<noteq> (''a'', ''b:c'', ''r'') \<and>
   get_consent reset ''a'' ''b:c'' ''r'' = None \<and>
   get_consent (snd (request_access clock0 ''a:b'' ''c'' ''r'' reset)) ''a'' ''b:c'' ''r'' =
     Some \<lparr>c_owner_vid = ''a:b'', c_viewer_vid = ''c'', c_record_id = ''r'',
           status = ''requested'', capsule_cid = None, capsule_hash = None,
           created_at = 0, updated_at = 1\<rparr> \<and>
   fst (request_access clock0 ''a'' ''b:c'' ''r'' (snd (request_access clock0 ''a:b'' ''c'' ''r'' reset))) =
     Inl (ValueError ''Consent already exists for a:b:c:r'') \<and>
   map_option status
     (get_consent
        (snd (revoke_access clock0 ''a'' ''b:c'' ''r''
               (snd (request_access clock0 ''a:b'' ''c'' ''r'' reset))))
        ''a:b'' ''c'' ''r'') = Some ''revoked''"
  by (simp add: get_consent_def consent_key_def request_access_def revoke_access_def reset_def
        log_audit_def clock0_def Let_def)

text \<open>Where owner and viewer identifiers contain no colon, the key determines the triple.\<close>

lemma colon_split_unique:
  "CHR '':'' \<notin> set a \<Longrightarrow> CHR '':'' \<notin> set b \<Longrightarrow> a @ CHR '':'' # x = b @ CHR '':'' # y
     \<Longrightarrow> a = b \<and> x = y"
proof (induction a arbitrary: b)
  case Nil
  then show ?case by (cases b) auto
next
  case (Cons c a)
  then show ?case by (cases b) auto
qed

lemma consent_key_inj_colon_free:
  assumes "CHR '':'' \<notin> set o1" "CHR '':'' \<notin> set o2" "CHR '':'' \<notin> set v1" "CHR '':'' \<notin> set v2"
    and "consent_key o1 v1 r1 = consent_key o2 v2 r2"
  shows "o1 = o2 \<and> v1 = v2 \<and> r1 = r2"
proof -
  from assms(5) have "o1 @ CHR '':'' # (v1 @ CHR '':'' # r1) = o2 @ CHR '':'' # (v2 @ CHR '':'' # r2)"
    by (simp add: consent_key_def)
  from colon_split_unique [OF assms(1,2) this] have a: "o1 = o2" and b: "v1 @ CHR '':'' # r1 = v2 @ CHR '':'' # r2"
    by simp_all
  from colon_split_unique [OF assms(3,4) b] a show ?thesis by simp
qed

subsection \<open>Failed preconditions\<close>

text \<open>
  Claim C7: when \<open>register_user\<close>, \<open>store_record\<close>, \<open>request_access\<close>, \<open>approve_access\<close> or
  \<open>revoke_access\<close> fails its precondition check (the user id is registered, the record id is
  stored, the key has a consent entry, or the key has none), it raises the error and the
  registry it leaves is the registry it found: users, records, consent entries and audit log
  are all unchanged. These checks are the only failures: whenever one of the five operations
  raises, the registry is unchanged.
\<close>

theorem failed_precondition_no_effect:
  "(users s uid \<noteq> None \<longrightarrow>
      register_user tm uid rl pk s = (Inl (ValueError (''User '' @ uid @ '' already registered'')), s)) \<and>
   (records s rid \<noteq> None \<longrightarrow>
      store_record tm rid owner uploader c h s = (Inl (ValueError (''Record '' @ rid @ '' already exists'')), s)) \<and>
   (get_consent s owner viewer rid \<noteq> None \<longrightarrow>
      request_access tm owner viewer rid s =
        (Inl (ValueError (''Consent already exists for '' @ consent_key owner viewer rid)), s)) \<and>
   (get_consent s owner viewer rid = None \<longrightarrow>
      approve_access tm owner viewer rid c h s =
        (Inl (ValueError (''Consent not found for '' @ consent_key owner viewer rid)), s)) \<and>
   (get_consent s owner viewer rid = None \<longrightarrow>
      revoke_access tm owner viewer rid s =
        (Inl (ValueError (''Consent not found for '' @ consent_key owner viewer rid)), s)) \<and>
   (\<forall>e. fst (register_user tm uid rl pk s) = Inl e \<longrightarrow> snd (register_user tm uid rl pk s) = s) \<and>
   (\<forall>e. fst (store_record tm rid owner uploader c h s) = Inl e \<longrightarrow>
        snd (store_record tm rid owner uploader c h s) = s) \<and>
   (\<forall>e. fst (request_access tm owner viewer rid s) = Inl e \<longrightarrow>
        snd (request_access tm owner viewer rid s) = s) \<and>
   (\<forall>e. fst (approve_access tm owner viewer rid c h s) = Inl e \<longrightarrow>
        snd (approve_access tm owner viewer rid c h s) = s) \<and>
   (\<forall>e. fst (revoke_access tm owner viewer rid s) = Inl e \<longrightarrow>
        snd (revoke_access tm owner viewer rid s) = s)"
  by (simp add: register_user_def store_record_def request_access_def approve_access_def
        revoke_access_def get_consent_def Let_def split: option.split)

theorem failed_precondition_no_effect_witness:
  "register_user clock0 ''O'' DOCTOR ''pk2'' bc_example =
     (Inl (ValueError ''User O already registered''), bc_example) \<and>
   store_record clock0 ''R1'' ''O'' ''D'' ''Qm9'' ''h9'' bc_example =
     (Inl (ValueError ''Record R1 already exists''), bc_example) \<and>
   request_access clock0 ''O'' ''V'' ''R1'' bc_example =
     (Inl (ValueError ''Consent already exists for O:V:R1''), bc_example) \<and>
   approve_access clock0 ''O'' ''W'' ''R1'' ''Qm9'' ''h9'' bc_example =
     (Inl (ValueError ''Consent not found for O:W:R1''), bc_example) \<and>
   revoke_access clock0 ''O'' ''W'' ''R1'' bc_example =
     (Inl (ValueError ''Consent not found for O:W:R1''), bc_example)"
  using failed_precondition_no_effect [of bc_example "''O''" clock0 DOCTOR "''pk2''" "''R1''" "''O''" "''D''" "''Qm9''" "''h9''" "''V''"]
    failed_precondition_no_effect [of bc_example "''O''" clock0 DOCTOR "''pk2''" "''R1''" "''O''" "''D''" "''Qm9''" "''h9''" "''W''"]
  by (simp add: users_bc_example records_bc_example consents_bc_example get_consent_def consent_key_def)

subsection \<open>Requests\<close>

text \<open>
  What \<open>request_access\<close> does is decided by the key: where the key of the triple has no
  consent entry, the call succeeds and creates the entry with status requested and no
  fragment reference; where the key has an entry, of any status (revoked included), the call
  raises "Consent already exists" and the registry is unchanged.
\<close>

lemma request_access_by_key:
  "(get_consent s owner viewer rid = None \<longrightarrow>
      fst (request_access tm owner viewer rid s) = Inr () \<and>
      get_consent (snd (request_access tm owner viewer rid s)) owner viewer rid =
        Some \<lparr>c_owner_vid = owner, c_viewer_vid = viewer, c_record_id = rid,
              status = ''requested'', capsule_cid = None, capsule_hash = None,
              created_at = tm 0, updated_at = tm 1\<rparr>) \<and>
   (\<forall>c. get_consent s owner viewer rid = Some c \<longrightarrow>
      request_access tm owner viewer rid s =
        (Inl (ValueError (''Consent already exists for '' @ consent_key owner viewer rid)), s))"
  by (simp add: request_access_def get_consent_def Let_def log_audit_def)

lemma request_access_by_key_example:
  "fst (request_access clock0 ''O'' ''V'' ''R1'' reset) = Inr () \<and>
   get_consent (snd (request_access clock0 ''O'' ''V'' ''R1'' reset)) ''O'' ''V'' ''R1'' =
     Some \<lparr>c_owner_vid = ''O'', c_viewer_vid = ''V'', c_record_id = ''R1'',
           status = ''requested'', capsule_cid = None, capsule_hash = None,
           created_at = 0, updated_at = 1\<rparr> \<and>
   map_option status (get_consent bc_revoked ''O'' ''V'' ''R1'') = Some ''revoked'' \<and>
   request_access clock0 ''O'' ''V'' ''R1'' bc_revoked =
     (Inl (ValueError ''Consent already exists for O:V:R1''), bc_revoked)"
  using request_access_by_key [of reset "''O''" "''V''" "''R1''" clock0]
    request_access_by_key [of bc_revoked "''O''" "''V''" "''R1''" clock0]
  by (simp add: get_consent_def consent_key_def reset_def consents_bc_revoked clock0_def)

text \<open>
  Claim C8 fails where two triples share a key. After the request of \<open>("a:b", "c", "r")\<close> on
  an empty registry, the only consent entry is the one of that triple; the triple
  \<open>("a", "b:c", "r")\<close> has no consent entry, and its request is nevertheless rejected with
  "Consent already exists", so that no entry in status requested is created for it.
\<close>

theorem request_rejected_for_triple_without_entry:
  "consents (snd (request_access clock0 ''a:b'' ''c'' ''r'' reset)) =
     [''a:b:c:r'' \<mapsto>
        \<lparr>c_owner_vid = ''a:b'', c_viewer_vid = ''c'', c_record_id = ''r'',
         status = ''requested'', capsule_cid = None, capsule_hash = None,
         created_at = 0, updated_at = 1\<rparr>] \<and>
   request_access clock0 ''a'' ''b:c'' ''r'' (snd (request_access clock0 ''a:b'' ''c'' ''r'' reset)) =
     (Inl (ValueError ''Consent already exists for a:b:c:r''),
      snd (request_access clock0 ''a:b'' ''c'' ''r'' reset))"
  by (simp add: request_access_def consent_key_def reset_def log_audit_def clock0_def Let_def)

subsection \<open>Storing a record\<close>

text \<open>
  \<open>store_record\<close> never consults \<open>users\<close>: a record whose owner is not registered is stored.
\<close>

theorem store_record_unregistered_owner_counterexample:
  "users reset ''ghost'' = None \<and>
   fst (store_record clock0 ''R1'' ''ghost'' ''D'' ''Qm0'' ''h0'' reset) = Inr () \<and>
   map_option owner_vid
     (get_record (snd (store_record clock0 ''R1'' ''ghost'' ''D'' ''Qm0'' ''h0'' reset)) ''R1'') =
     Some ''ghost''"
  by (simp add: reset_def store_record_def get_record_def log_audit_def)

text \<open>
  Claim C9, as the code has it: \<open>store_record\<close> succeeds exactly when the record id is not
  stored yet, whoever the owner is and whether or not the owner is registered, and creates
  the record with the given owner. It fails only on a record id that is already stored, and
  then the registry is unchanged.
\<close>

theorem store_record_checks_record_id_only:
  "(records s rid = None \<longrightarrow>
      fst (store_record tm rid owner uploader c h s) = Inr () \<and>
      get_record (snd (store_record tm rid owner uploader c h s)) rid =
        Some \<lparr>record_id = rid, owner_vid = owner, uploader_vid = uploader, cid = c,
              hash = h, stored_at = tm 0\<rparr>) \<and>
   (records s rid \<noteq> None \<longrightarrow>
      store_record tm rid owner uploader c h s =
        (Inl (ValueError (''Record '' @ rid @ '' already exists'')), s))"
  by (simp add: store_record_def get_record_def log_audit_def)

theorem store_record_checks_record_id_only_witness:
  "fst (store_record clock0 ''R2'' ''ghost'' ''D'' ''Qm0'' ''h0'' bc_example) = Inr () \<and>
   get_record (snd (store_record clock0 ''R2'' ''ghost'' ''D'' ''Qm0'' ''h0'' bc_example)) ''R2'' =
     Some \<lparr>record_id = ''R2'', owner_vid = ''ghost'', uploader_vid = ''D'', cid = ''Qm0'',
           hash = ''h0'', stored_at = 0\<rparr> \<and>
   store_record clock0 ''R1'' ''O'' ''D'' ''Qm0'' ''h0'' bc_example =
     (Inl (ValueError ''Record R1 already exists''), bc_example)"
  using store_record_checks_record_id_only [of bc_example "''R2''" clock0 "''ghost''" "''D''" "''Qm0''" "''h0''"]
    store_record_checks_record_id_only [of bc_example "''R1''" clock0 "''O''" "''D''" "''Qm0''" "''h0''"]
  by (simp add: records_bc_example clock0_def)

section \<open>Properties of the simulator\<close>

subsection \<open>The worked run\<close>

lemmas toy_sel = toy_umbral_def toy_hash_def toy_cid_def

lemmas bc_defs = register_user_def store_record_def request_access_def approve_access_def revoke_access_def log_audit_def consent_key_def get_consent_def get_record_def Let_def

lemmas cm_defs = load_public_key_def load_private_key_def encrypt_def generate_reencryption_key_def reencrypt_def compute_hash_def upload_def download_def

lemmas io_defs = io_bind_def io_call_def

lemma crypto_sim1: "crypto sim1 = \<lparr>private_key_file = [''O'' \<mapsto> ''s'', ''D'' \<mapsto> ''ss'', ''V'' \<mapsto> ''sss''], public_key_file = [''O'' \<mapsto> ''Ps'', ''D'' \<mapsto> ''Pss'', ''V'' \<mapsto> ''Psss'']\<rparr>"
  by (simp add: sim1_def)

lemma sim1_rest: "records (blockchain sim1) = Map.empty" "consents (blockchain sim1) = Map.empty" "ipfs sim1 = Map.empty"
   "capsule_storage sim1 = Map.empty"
  by (simp_all add: sim1_def register_user_def log_audit_def reset_def)

lemma phase2_sim1: "phase2_data_encryption toy_umbral toy_hash 0 ''hello world'' ''O'' (Some ''R1'') sim1 =
   (Inr \<lparr>ciphertext = ''dlrow olleh'', capsule = ''Ps'', cipher_hash = ''hdlrow olleh'', data_size_bytes = 11\<rparr>,
    sim1\<lparr>capsule_storage := [''R1'' \<mapsto> ''Ps'']\<rparr>)"
  by (simp add: phase2_data_encryption_def crypto_sim1 sim1_rest toy_sel cm_defs)

lemma sim2_eq: "sim2 = sim1\<lparr>capsule_storage := [''R1'' \<mapsto> ''Ps'']\<rparr>"
  by (simp add: sim2_def phase2_sim1)

lemma phase3_sim2: "phase3_ipfs_storage toy_cid ''dlrow olleh'' ''hello world'' sim2 =
   (\<lparr>original_cid = ''Qmhello world'', encrypted_cid = ''Qmdlrow olleh'', original_size_bytes = 11, encrypted_size_bytes = 11\<rparr>,
    sim2\<lparr>ipfs := [''Qmhello world'' \<mapsto> ''hello world'', ''Qmdlrow olleh'' \<mapsto> ''dlrow olleh'']\<rparr>)"
  by (simp add: phase3_ipfs_storage_def sim2_eq sim1_rest toy_sel cm_defs)

lemma sim3_eq: "sim3 = sim1\<lparr>capsule_storage := [''R1'' \<mapsto> ''Ps''], ipfs := [''Qmhello world'' \<mapsto> ''hello world'', ''Qmdlrow olleh'' \<mapsto> ''dlrow olleh'']\<rparr>"
proof -
  have "sim3 = sim2\<lparr>ipfs := [''Qmhello world'' \<mapsto> ''hello world'', ''Qmdlrow olleh'' \<mapsto> ''dlrow olleh'']\<rparr>"
    by (simp add: sim3_def phase3_sim2)
  then show ?thesis by (simp add: sim2_eq)
qed

lemma sim4_parts: "fst (phase4_onchain_storage clock0 ''R1'' ''O'' ''D'' ''Qmdlrow olleh'' ''hdlrow olleh'' sim3) = Inr ()"
  "records (blockchain sim4) = [''R1'' \<mapsto> \<lparr>record_id = ''R1'', owner_vid = ''O'', uploader_vid = ''D'', cid = ''Qmdlrow olleh'', hash = ''hdlrow olleh'', stored_at = 0\<rparr>]"
  "consents (blockchain sim4) = Map.empty" "crypto sim4 = crypto sim1" "ipfs sim4 = ipfs sim3" "capsule_storage sim4 = capsule_storage sim3"
  by (simp_all add: sim4_def phase4_onchain_storage_def store_record_def log_audit_def sim3_eq sim1_rest clock0_def split: prod.split)

lemma sim5_parts: "fst (phase5_access_request clock0 ''O'' ''V'' ''R1'' sim4) = Inr ()"
  "records (blockchain sim5) = records (blockchain sim4)"
  "consents (blockchain sim5) = [''O:V:R1'' \<mapsto> \<lparr>c_owner_vid = ''O'', c_viewer_vid = ''V'', c_record_id = ''R1'', status = ''requested'', capsule_cid = None, capsule_hash = None, created_at = 0, updated_at = 1\<rparr>]"
  "crypto sim5 = crypto sim1" "ipfs sim5 = ipfs sim3" "capsule_storage sim5 = capsule_storage sim3"
  by (simp_all add: sim5_def phase5_access_request_def request_access_def log_audit_def consent_key_def sim4_parts clock0_def Let_def split: prod.split)

lemma phase6_sim5: "phase6_consent_approval_pre toy_umbral toy_hash toy_cid 0 clock0 ''O'' ''V'' ''R1'' None sim5 =
   (Inr \<lparr>p6_owner_vid = ''O'', p6_viewer_vid = ''V'', p6_record_id = ''R1'', p6_capsule_cid = ''QmFPs'', p6_capsule_hash = ''hFPs'', cfrag = ''FPs''\<rparr>,
    sim5\<lparr>ipfs := (ipfs sim3)(''QmFPs'' \<mapsto> ''FPs''),
         blockchain := snd (approve_access clock0 ''O'' ''V'' ''R1'' ''QmFPs'' ''hFPs'' (blockchain sim5))\<rparr>)"
  by (simp add: phase6_consent_approval_pre_def sim5_parts sim3_eq crypto_sim1 toy_sel cm_defs approve_access_def consent_key_def Let_def)

lemma sim6_parts:
  "records (blockchain sim6) = records (blockchain sim4)"
  "consents (blockchain sim6) = [''O:V:R1'' \<mapsto> \<lparr>c_owner_vid = ''O'', c_viewer_vid = ''V'', c_record_id = ''R1'', status = ''approved'', capsule_cid = Some ''QmFPs'', capsule_hash = Some ''hFPs'', created_at = 0, updated_at = 0\<rparr>]"
  "crypto sim6 = crypto sim1" "ipfs sim6 = (ipfs sim3)(''QmFPs'' \<mapsto> ''FPs'')" "capsule_storage sim6 = capsule_storage sim3"
  by (simp_all add: sim6_def phase6_sim5 sim5_parts approve_access_def log_audit_def consent_key_def clock0_def Let_def)

lemma sim8_parts: "fst (phase8_access_revocation clock0 ''O'' ''V'' ''R1'' sim6) = Inr ()"
  "records (blockchain sim8) = records (blockchain sim4)"
  "consents (blockchain sim8) = [''O:V:R1'' \<mapsto> \<lparr>c_owner_vid = ''O'', c_viewer_vid = ''V'', c_record_id = ''R1'', status = ''revoked'', capsule_cid = None, capsule_hash = None, created_at = 0, updated_at = 0\<rparr>]"
  "crypto sim8 = crypto sim1" "ipfs sim8 = ipfs sim6" "capsule_storage sim8 = capsule_storage sim3"
  by (simp_all add: sim8_def phase8_access_revocation_def revoke_access_def log_audit_def consent_key_def sim6_parts clock0_def Let_def split: prod.split)

lemma sim9_parts: "fst (approve_access clock0 ''O'' ''V'' ''R1'' ''QmFPs'' ''hFPs'' (blockchain sim8)) = Inr ()"
  "records (blockchain sim9) = records (blockchain sim4)"
  "consents (blockchain sim9) = consents (blockchain sim6)"
  "crypto sim9 = crypto sim1" "ipfs sim9 = ipfs sim6" "capsule_storage sim9 = capsule_storage sim3"
  by (simp_all add: sim9_def approve_access_def log_audit_def consent_key_def sim8_parts sim6_parts clock0_def Let_def)

lemma phase7_toy_run:
  assumes "records (blockchain sim) = records (blockchain sim4)" "consents (blockchain sim) = consents (blockchain sim6)"
    "crypto sim = crypto sim1" "ipfs sim = ipfs sim6" "capsule_storage sim = capsule_storage sim3"
  shows "phase7_data_retrieval_decryption toy_umbral toy_hash ''V'' ''R1'' ''O'' None sim =
   ([Ev_ipfs_cat (Some ''Qmdlrow olleh''), Ev_ipfs_cat (Some ''QmFPs''),
     Ev_compute_hash ''dlrow olleh'', Ev_compute_hash ''FPs'',
     Ev_load_private_key ''V'', Ev_load_public_key ''O'',
     Ev_Capsule_from_bytes ''Ps'', Ev_CapsuleFrag_from_bytes ''FPs'',
     Ev_public_key ''sss'',
     Ev_verify ''FPs'' ''Ps'' ''Ps'' ''Ps'' ''Psss'' (Some ''FPs''),
     Ev_decrypt_reencrypted ''sss'' ''Ps'' ''Ps'' [''FPs''] ''dlrow olleh'' (Some ''hello world'')],
    Inr \<lparr>p7_viewer_vid = ''V'', p7_record_id = ''R1'', plaintext_size_bytes = 11\<rparr>)"
  by (simp add: phase7_data_retrieval_decryption_def decrypt_with_cfrag_def assms sim6_parts sim4_parts sim3_eq crypto_sim1
       get_consent_def get_record_def consent_key_def io_defs toy_sel cm_defs)

subsection \<open>Revocation\<close>

lemma revoked_step:
  assumes "consents s key = Some c" "status c = ''revoked''" "\<not> approves key x"
  shows "\<exists>c'. consents (snd (apply_operation tm x s)) key = Some c' \<and> status c' = ''revoked''"
proof (cases x)
  case (Register uid rl pk)
  with assms show ?thesis by (simp add: register_user_def log_audit_def)
next
  case (Store rid owner uploader ci h)
  with assms show ?thesis by (simp add: store_record_def log_audit_def)
next
  case (Request owner viewer rid)
  with assms show ?thesis by (auto simp add: request_access_def log_audit_def Let_def)
next
  case (Approve owner viewer rid ci h)
  with assms show ?thesis
    by (simp add: approve_access_def log_audit_def Let_def split: option.split)
next
  case (Revoke owner viewer rid)
  with assms show ?thesis
    by (auto simp add: revoke_access_def log_audit_def Let_def split: option.split)
qed

lemma revoked_run:
  assumes "\<forall>x \<in> set xs. \<not> approves key (snd x)"
    and "consents s key = Some c" "status c = ''revoked''"
  shows "\<exists>c'. consents (run_operations xs s) key = Some c' \<and> status c' = ''revoked''"
  using assms
proof (induction xs arbitrary: s c)
  case Nil
  then show ?case by simp
next
  case (Cons a xs)
  obtain tm x where a: "a = (tm, x)" by (cases a)
  from Cons.prems a have nx: "\<not> approves key x" by simp
  from revoked_step [OF Cons.prems(2,3) nx]
  obtain c' where c': "consents (snd (apply_operation tm x s)) key = Some c'" "status c' = ''revoked''"
    by blast
  from Cons.prems(1) have rest: "\<forall>x \<in> set xs. \<not> approves key (snd x)" by simp
  from Cons.IH [OF rest c'] show ?case by (simp add: a)
qed

lemma phase7_not_approved:
  assumes "consents (blockchain sim) (consent_key owner viewer rid) = Some c" "status c \<noteq> ''approved''"
  shows "phase7_data_retrieval_decryption lib H viewer rid owner oc sim =
     ([], Inl (ValueError (''Consent not approved for '' @ owner @ '':'' @ viewer @ '':'' @ rid)))"
  using assms by (simp add: phase7_data_retrieval_decryption_def get_consent_def)

lemma revoke_sim6: "revoke_access clock0 ''O'' ''V'' ''R1'' (blockchain sim6) = (Inr (), blockchain sim8)"
  by (simp add: sim8_def phase8_access_revocation_def revoke_access_def sim6_parts consent_key_def Let_def)

text \<open>
  The run of the example: after the revocation, retrieval fails at the consent check; the
  owner approves the same key again with the old fragment reference (\<open>approve_access\<close> does
  not read the status), and retrieval succeeds.
\<close>

theorem retrieval_after_reapproval_counterexample:
  "fst (phase8_access_revocation clock0 ''O'' ''V'' ''R1'' sim6) = Inr () \<and>
   phase7_data_retrieval_decryption toy_umbral toy_hash ''V'' ''R1'' ''O'' None sim8 =
     ([], Inl (ValueError ''Consent not approved for O:V:R1'')) \<and>
   fst (approve_access clock0 ''O'' ''V'' ''R1'' ''QmFPs'' ''hFPs'' (blockchain sim8)) = Inr () \<and>
   snd (phase7_data_retrieval_decryption toy_umbral toy_hash ''V'' ''R1'' ''O'' None sim9) =
     Inr \<lparr>p7_viewer_vid = ''V'', p7_record_id = ''R1'', plaintext_size_bytes = 11\<rparr>"
  by (simp add: sim8_parts sim9_parts phase7_toy_run)
     (simp add: phase7_data_retrieval_decryption_def get_consent_def consent_key_def sim8_parts)

text \<open>
  Claim C3, as the code has it: when \<open>revoke_access\<close> succeeds for a triple, the entry under
  its key has status revoked and neither fragment locator nor fragment hash. From then on,
  through any history of registry calls that contains no approval of that key, a retrieval
  for the triple fails at the consent check with "Consent not approved", with an empty
  trace: no download, no hash, no key file and no library call happens, whatever the content
  store, the capsule store and the capsule the caller passes hold.
\<close>

theorem revocation_blocks_retrieval:
  assumes "revoke_access tm owner viewer rid s = (Inr (), s1)"
  shows "(\<exists>c. get_consent s1 owner viewer rid = Some c \<and> status c = ''revoked'' \<and>
              capsule_cid c = None \<and> capsule_hash c = None) \<and>
         (\<forall>xs sim oc.
            (\<forall>x \<in> set xs. \<not> approves (consent_key owner viewer rid) (snd x)) \<and>
            blockchain sim = run_operations xs s1 \<longrightarrow>
            phase7_data_retrieval_decryption lib H viewer rid owner oc sim =
              ([], Inl (ValueError
                         (''Consent not approved for '' @ owner @ '':'' @ viewer @ '':'' @ rid))))"
proof -
  from assms obtain c0 where c0: "consents s (consent_key owner viewer rid) = Some c0"
    by (auto simp add: revoke_access_def Let_def split: option.splits)
  with assms have s1: "s1 = log_audit (tm 1) ''revoke_access''
        [(''owner_vid'', owner), (''viewer_vid'', viewer), (''record_id'', rid)]
        (s\<lparr>consents := (consents s)(consent_key owner viewer rid \<mapsto>
             c0\<lparr>status := ''revoked'', capsule_cid := None, capsule_hash := None,
                updated_at := tm 0\<rparr>)\<rparr>)"
    by (simp add: revoke_access_def Let_def)
  have k: "consents s1 (consent_key owner viewer rid) =
             Some (c0\<lparr>status := ''revoked'', capsule_cid := None, capsule_hash := None,
                      updated_at := tm 0\<rparr>)"
    by (simp add: s1 log_audit_def)
  have first: "\<exists>c. get_consent s1 owner viewer rid = Some c \<and> status c = ''revoked'' \<and>
              capsule_cid c = None \<and> capsule_hash c = None"
    by (simp add: get_consent_def k)
  have second: "phase7_data_retrieval_decryption lib H viewer rid owner oc sim =
              ([], Inl (ValueError
                         (''Consent not approved for '' @ owner @ '':'' @ viewer @ '':'' @ rid)))"
    if h: "\<forall>x \<in> set xs. \<not> approves (consent_key owner viewer rid) (snd x)"
      and b: "blockchain sim = run_operations xs s1" for xs sim oc
  proof -
    from revoked_run [OF h k] obtain c' where
      "consents (run_operations xs s1) (consent_key owner viewer rid) = Some c'" "status c' = ''revoked''"
      by auto
    then show ?thesis by (intro phase7_not_approved [where c = c']) (simp_all add: b)
  qed
  from first second show ?thesis by blast
qed

theorem revocation_blocks_retrieval_witness:
  "revoke_access clock0 ''O'' ''V'' ''R1'' (blockchain sim6) = (Inr (), blockchain sim8) \<and>
   map_option status (get_consent (blockchain sim8) ''O'' ''V'' ''R1'') = Some ''revoked'' \<and>
   phase7_data_retrieval_decryption toy_umbral toy_hash ''V'' ''R1'' ''O'' (Some ''Ps'') sim_later =
     ([], Inl (ValueError ''Consent not approved for O:V:R1''))"
proof -
  have a: "\<forall>x \<in> set [(clock0, Request ''O'' ''V'' ''R1''), (clock0, Revoke ''O'' ''V'' ''R1''),
                      (clock0, Approve ''O'' ''W'' ''R1'' ''QmFPs'' ''hFPs''),
                      (clock0, Store ''R2'' ''O'' ''D'' ''Qm0'' ''h0'')].
           \<not> approves (consent_key ''O'' ''V'' ''R1'') (snd x)"
    by (simp add: consent_key_def)
  have b: "blockchain sim_later = run_operations [(clock0, Request ''O'' ''V'' ''R1''), (clock0, Revoke ''O'' ''V'' ''R1''),
                      (clock0, Approve ''O'' ''W'' ''R1'' ''QmFPs'' ''hFPs''),
                      (clock0, Store ''R2'' ''O'' ''D'' ''Qm0'' ''h0'')] (blockchain sim8)"
    by (simp add: sim_later_def)
  note th = revocation_blocks_retrieval [OF revoke_sim6, where lib = toy_umbral and H = toy_hash]
  from th a b
  have "phase7_data_retrieval_decryption toy_umbral toy_hash ''V'' ''R1'' ''O'' (Some ''Ps'') sim_later =
     ([], Inl (ValueError (''Consent not approved for '' @ ''O'' @ '':'' @ ''V'' @ '':'' @ ''R1'')))"
    by blast
  then show ?thesis
    by (simp add: revoke_sim6 get_consent_def consent_key_def sim8_parts)
qed

subsection \<open>Integrity of the downloaded blobs\<close>

text \<open>
  Claim C5: in a retrieval that passes the consent and record checks and downloads both
  blobs, if the hash of the downloaded ciphertext differs from the hash in the record, or
  the hash of the downloaded fragment differs from the hash in the consent entry, the
  retrieval raises the hash mismatch error after the two downloads and the two hash
  computations and nothing else: no key is loaded and no library call is made. Conversely, a
  retrieval that returns normally, or whose trace contains a decryption call, has found both
  hashes equal to the recorded ones.
\<close>

theorem hash_mismatch_stops_retrieval:
  assumes "get_consent (blockchain sim) owner viewer rid = Some consent"
    and "status consent = ''approved''"
    and "get_record (blockchain sim) rid = Some rec"
    and "download (ipfs sim) (Some (cid rec)) = Inr ct"
    and "download (ipfs sim) (capsule_cid consent) = Inr cf"
  shows "(compute_hash H ct \<noteq> hash rec \<or> Some (compute_hash H cf) \<noteq> capsule_hash consent \<longrightarrow>
          phase7_data_retrieval_decryption lib H viewer rid owner oc sim =
            ([Ev_ipfs_cat (Some (cid rec)), Ev_ipfs_cat (capsule_cid consent),
              Ev_compute_hash ct, Ev_compute_hash cf],
             Inl (ValueError (if compute_hash H ct \<noteq> hash rec then ''Ciphertext hash mismatch''
                              else ''Capsule hash mismatch'')))) \<and>
         ((\<exists>e \<in> set (fst (phase7_data_retrieval_decryption lib H viewer rid owner oc sim)).
              is_decrypt_event e) \<or>
          (\<exists>r. snd (phase7_data_retrieval_decryption lib H viewer rid owner oc sim) = Inr r) \<longrightarrow>
          compute_hash H ct = hash rec \<and> Some (compute_hash H cf) = capsule_hash consent)"
proof -
  have a: "phase7_data_retrieval_decryption lib H viewer rid owner oc sim =
            ([Ev_ipfs_cat (Some (cid rec)), Ev_ipfs_cat (capsule_cid consent),
              Ev_compute_hash ct, Ev_compute_hash cf],
             Inl (ValueError (if compute_hash H ct \<noteq> hash rec then ''Ciphertext hash mismatch''
                              else ''Capsule hash mismatch'')))"
    if "compute_hash H ct \<noteq> hash rec \<or> Some (compute_hash H cf) \<noteq> capsule_hash consent"
    using that assms by (auto simp add: phase7_data_retrieval_decryption_def io_bind_def io_call_def)
  have b: "compute_hash H ct = hash rec \<and> Some (compute_hash H cf) = capsule_hash consent"
    if "(\<exists>e \<in> set (fst (phase7_data_retrieval_decryption lib H viewer rid owner oc sim)).
              is_decrypt_event e) \<or>
          (\<exists>r. snd (phase7_data_retrieval_decryption lib H viewer rid owner oc sim) = Inr r)"
  proof (rule ccontr)
    assume "\<not> (compute_hash H ct = hash rec \<and> Some (compute_hash H cf) = capsule_hash consent)"
    then have "compute_hash H ct \<noteq> hash rec \<or> Some (compute_hash H cf) \<noteq> capsule_hash consent"
      by blast
    from a [OF this] that show False by simp
  qed
  from a b show ?thesis by blast
qed

theorem hash_mismatch_stops_retrieval_witness:
  "phase7_data_retrieval_decryption toy_umbral toy_hash ''V'' ''R1'' ''O'' None sim_corrupt =
     ([Ev_ipfs_cat (Some ''Qmdlrow olleh''), Ev_ipfs_cat (Some ''QmFPs''),
       Ev_compute_hash ''dlrow ollex'', Ev_compute_hash ''FPs''],
      Inl (ValueError ''Ciphertext hash mismatch''))"
proof -
  have 1: "get_consent (blockchain sim_corrupt) ''O'' ''V'' ''R1'' =
      Some \<lparr>c_owner_vid = ''O'', c_viewer_vid = ''V'', c_record_id = ''R1'', status = ''approved'',
            capsule_cid = Some ''QmFPs'', capsule_hash = Some ''hFPs'', created_at = 0, updated_at = 0\<rparr>"
    by (simp add: sim_corrupt_def get_consent_def consent_key_def sim6_parts)
  have 2: "get_record (blockchain sim_corrupt) ''R1'' =
      Some \<lparr>record_id = ''R1'', owner_vid = ''O'', uploader_vid = ''D'', cid = ''Qmdlrow olleh'',
            hash = ''hdlrow olleh'', stored_at = 0\<rparr>"
    by (simp add: sim_corrupt_def get_record_def sim6_parts sim4_parts)
  have 3: "download (ipfs sim_corrupt) (Some ''Qmdlrow olleh'') = Inr ''dlrow ollex''"
    by (simp add: sim_corrupt_def download_def)
  have 4: "download (ipfs sim_corrupt) (Some ''QmFPs'') = Inr ''FPs''"
    by (simp add: sim_corrupt_def download_def sim6_parts)
  from hash_mismatch_stops_retrieval [of sim_corrupt "''O''" "''V''" "''R1''" _ _ "''dlrow ollex''" "''FPs''"
      toy_hash toy_umbral None, OF 1 _ 2]
    3 4
  show ?thesis by (simp add: compute_hash_def toy_hash_def)
qed

subsection \<open>Verification before decryption\<close>

lemma decrypt_with_cfrag_trace:
  "fst (decrypt_with_cfrag lib ct capb cfb sk opk) =
     Ev_Capsule_from_bytes capb #
     (case Capsule_from_bytes lib capb of
        None \<Rightarrow> []
      | Some cap \<Rightarrow>
          Ev_CapsuleFrag_from_bytes cfb #
          (case CapsuleFrag_from_bytes lib cfb of
             None \<Rightarrow> []
           | Some cf \<Rightarrow>
               Ev_public_key sk #
               Ev_verify cf cap opk opk (sk_public_key lib sk)
                 (cfrag_verify lib cf cap opk opk (sk_public_key lib sk)) #
               (case cfrag_verify lib cf cap opk opk (sk_public_key lib sk) of
                  None \<Rightarrow> []
                | Some v \<Rightarrow>
                    [Ev_decrypt_reencrypted sk opk cap [v] ct
                       (pre_decrypt_reencrypted lib sk opk cap [v] ct)])))"
  by (simp add: decrypt_with_cfrag_def io_bind_def io_call_def Let_def split: option.split)

lemma decrypt_with_cfrag_result:
  "snd (decrypt_with_cfrag lib ct capb cfb sk opk) =
     (case Capsule_from_bytes lib capb of
        None \<Rightarrow> Inl (DeserializationError ''Capsule'')
      | Some cap \<Rightarrow>
          (case CapsuleFrag_from_bytes lib cfb of
             None \<Rightarrow> Inl (DeserializationError ''CapsuleFrag'')
           | Some cf \<Rightarrow>
               (case cfrag_verify lib cf cap opk opk (sk_public_key lib sk) of
                  None \<Rightarrow> Inl (VerificationError ''cfrag'')
                | Some v \<Rightarrow>
                    (case pre_decrypt_reencrypted lib sk opk cap [v] ct of
                       None \<Rightarrow> Inl (DecryptionError ''decrypt_reencrypted'')
                     | Some p \<Rightarrow> Inr p))))"
  by (simp add: decrypt_with_cfrag_def io_bind_def io_call_def Let_def split: option.split)

lemma decrypt_with_cfrag_verified:
  "decrypts_only_verified lib acc (fst (decrypt_with_cfrag lib ct capb cfb sk opk))"
  by (simp add: decrypt_with_cfrag_trace split: option.split)

lemma decrypts_only_verified_skip:
  "\<forall>e \<in> set pre. \<not> is_crypto_event e \<Longrightarrow>
     decrypts_only_verified lib acc (pre @ tr) = decrypts_only_verified lib acc tr"
proof (induction pre)
  case Nil
  then show ?case by simp
next
  case (Cons e pre)
  then show ?case by (cases e) simp_all
qed

lemma fst_io_bind:
  "fst (io_bind m f) = fst m @ (case snd m of Inl e \<Rightarrow> [] | Inr x \<Rightarrow> fst (f x))"
  by (cases m) (simp add: io_bind_def split: sum.split prod.split)

lemma snd_io_bind:
  "snd (io_bind m f) = (case snd m of Inl e \<Rightarrow> Inl e | Inr x \<Rightarrow> snd (f x))"
  by (cases m) (simp add: io_bind_def split: sum.split prod.split)

lemma phase7_verified:
  "decrypts_only_verified lib [] (fst (phase7_data_retrieval_decryption lib H viewer rid owner oc sim))"
  by (simp add: phase7_data_retrieval_decryption_def fst_io_bind io_call_def
        decrypt_with_cfrag_verified split: option.split sum.split)

text \<open>
  Claim C6: in every run of \<open>decrypt_with_cfrag\<close>, and in every run of the retrieval phase,
  each decryption call is given only fragments that an earlier verification call of the same
  run returned, for the same capsule, with the owner's key as delegating key and the
  viewer's public key as receiving key. In \<open>decrypt_with_cfrag\<close> a decryption call occurs
  only as the last event, after the successful verification of the deserialised fragment
  against the deserialised original capsule, with the owner's public key as verifying and
  delegating key and the viewer's public key as receiving key; when that verification
  fails, the function raises and the trace ends with the failed verification.
\<close>

theorem cfrag_verified_before_decryption:
  "decrypts_only_verified lib [] (fst (decrypt_with_cfrag lib ct capb cfb sk opk)) \<and>
   decrypts_only_verified lib []
     (fst (phase7_data_retrieval_decryption lib H viewer rid owner oc sim)) \<and>
   (\<forall>e \<in> set (fst (decrypt_with_cfrag lib ct capb cfb sk opk)). is_decrypt_event e \<longrightarrow>
      (\<exists>cap cf v.
         Capsule_from_bytes lib capb = Some cap \<and>
         CapsuleFrag_from_bytes lib cfb = Some cf \<and>
         cfrag_verify lib cf cap opk opk (sk_public_key lib sk) = Some v \<and>
         e = Ev_decrypt_reencrypted sk opk cap [v] ct
               (pre_decrypt_reencrypted lib sk opk cap [v] ct) \<and>
         fst (decrypt_with_cfrag lib ct capb cfb sk opk) =
           [Ev_Capsule_from_bytes capb, Ev_CapsuleFrag_from_bytes cfb, Ev_public_key sk,
            Ev_verify cf cap opk opk (sk_public_key lib sk) (Some v), e])) \<and>
   (\<forall>cap cf.
      Capsule_from_bytes lib capb = Some cap \<and> CapsuleFrag_from_bytes lib cfb = Some cf \<and>
      cfrag_verify lib cf cap opk opk (sk_public_key lib sk) = None \<longrightarrow>
      decrypt_with_cfrag lib ct capb cfb sk opk =
        ([Ev_Capsule_from_bytes capb, Ev_CapsuleFrag_from_bytes cfb, Ev_public_key sk,
          Ev_verify cf cap opk opk (sk_public_key lib sk) None],
         Inl (VerificationError ''cfrag'')))"
proof -
  have c: "\<exists>cap cf v.
         Capsule_from_bytes lib capb = Some cap \<and>
         CapsuleFrag_from_bytes lib cfb = Some cf \<and>
         cfrag_verify lib cf cap opk opk (sk_public_key lib sk) = Some v \<and>
         e = Ev_decrypt_reencrypted sk opk cap [v] ct
               (pre_decrypt_reencrypted lib sk opk cap [v] ct) \<and>
         fst (decrypt_with_cfrag lib ct capb cfb sk opk) =
           [Ev_Capsule_from_bytes capb, Ev_CapsuleFrag_from_bytes cfb, Ev_public_key sk,
            Ev_verify cf cap opk opk (sk_public_key lib sk) (Some v), e]"
    if "e \<in> set (fst (decrypt_with_cfrag lib ct capb cfb sk opk))" "is_decrypt_event e" for e
  proof (cases "Capsule_from_bytes lib capb")
    case None
    with that show ?thesis by (auto simp add: decrypt_with_cfrag_trace)
  next
    case cap: (Some cap)
    show ?thesis
    proof (cases "CapsuleFrag_from_bytes lib cfb")
      case None
      with that cap show ?thesis by (auto simp add: decrypt_with_cfrag_trace)
    next
      case cf: (Some cf)
      show ?thesis
      proof (cases "cfrag_verify lib cf cap opk opk (sk_public_key lib sk)")
        case None
        with that cap cf show ?thesis by (auto simp add: decrypt_with_cfrag_trace)
      next
        case (Some v)
        with that cap cf show ?thesis by (auto simp add: decrypt_with_cfrag_trace)
      qed
    qed
  qed
  have d: "decrypt_with_cfrag lib ct capb cfb sk opk =
        ([Ev_Capsule_from_bytes capb, Ev_CapsuleFrag_from_bytes cfb, Ev_public_key sk,
          Ev_verify cf cap opk opk (sk_public_key lib sk) None],
         Inl (VerificationError ''cfrag''))"
    if "Capsule_from_bytes lib capb = Some cap" "CapsuleFrag_from_bytes lib cfb = Some cf"
      "cfrag_verify lib cf cap opk opk (sk_public_key lib sk) = None" for cap cf
    using that by (simp add: decrypt_with_cfrag_def io_bind_def io_call_def)
  from c d decrypt_with_cfrag_verified [of lib "[]" ct capb cfb sk opk]
    phase7_verified [of lib H viewer rid owner oc sim]
  show ?thesis by blast
qed

theorem cfrag_verified_before_decryption_witness:
  "decrypts_only_verified toy_umbral []
     (fst (phase7_data_retrieval_decryption toy_umbral toy_hash ''V'' ''R1'' ''O'' None sim6)) \<and>
   fst (decrypt_with_cfrag toy_umbral ''dlrow olleh'' ''Ps'' ''FPs'' ''sss'' ''Ps'') =
     [Ev_Capsule_from_bytes ''Ps'', Ev_CapsuleFrag_from_bytes ''FPs'', Ev_public_key ''sss'',
      Ev_verify ''FPs'' ''Ps'' ''Ps'' ''Ps'' ''Psss'' (Some ''FPs''),
      Ev_decrypt_reencrypted ''sss'' ''Ps'' ''Ps'' [''FPs''] ''dlrow olleh'' (Some ''hello world'')] \<and>
   decrypt_with_cfrag toy_umbral ''dlrow olleh'' ''Ps'' ''FPx'' ''sss'' ''Ps'' =
     ([Ev_Capsule_from_bytes ''Ps'', Ev_CapsuleFrag_from_bytes ''FPx'', Ev_public_key ''sss'',
       Ev_verify ''FPx'' ''Ps'' ''Ps'' ''Ps'' ''Psss'' None],
      Inl (VerificationError ''cfrag''))"
proof -
  note th1 = cfrag_verified_before_decryption [of toy_umbral "''dlrow olleh''" "''Ps''" "''FPs''"
      "''sss''" "''Ps''" toy_hash "''V''" "''R1''" "''O''" None sim6]
  note th2 = cfrag_verified_before_decryption [of toy_umbral "''dlrow olleh''" "''Ps''" "''FPx''"
      "''sss''" "''Ps''" toy_hash "''V''" "''R1''" "''O''" None sim6]
  have e: "Ev_decrypt_reencrypted ''sss'' ''Ps'' ''Ps'' [''FPs''] ''dlrow olleh'' (Some ''hello world'')
      \<in> set (fst (decrypt_with_cfrag toy_umbral ''dlrow olleh'' ''Ps'' ''FPs'' ''sss'' ''Ps''))"
    by (simp add: decrypt_with_cfrag_trace toy_umbral_def)
  from th1 e have "fst (decrypt_with_cfrag toy_umbral ''dlrow olleh'' ''Ps'' ''FPs'' ''sss'' ''Ps'') =
     [Ev_Capsule_from_bytes ''Ps'', Ev_CapsuleFrag_from_bytes ''FPs'', Ev_public_key ''sss'',
      Ev_verify ''FPs'' ''Ps'' ''Ps'' ''Ps'' ''Psss'' (Some ''FPs''),
      Ev_decrypt_reencrypted ''sss'' ''Ps'' ''Ps'' [''FPs''] ''dlrow olleh'' (Some ''hello world'')]"
    by (simp add: decrypt_with_cfrag_trace toy_umbral_def)
  moreover from th2 have "decrypt_with_cfrag toy_umbral ''dlrow olleh'' ''Ps'' ''FPx'' ''sss'' ''Ps'' =
     ([Ev_Capsule_from_bytes ''Ps'', Ev_CapsuleFrag_from_bytes ''FPx'', Ev_public_key ''sss'',
       Ev_verify ''FPx'' ''Ps'' ''Ps'' ''Ps'' ''Psss'' None],
      Inl (VerificationError ''cfrag''))"
    by (simp add: toy_umbral_def)
  moreover from th1 have "decrypts_only_verified toy_umbral []
     (fst (phase7_data_retrieval_decryption toy_umbral toy_hash ''V'' ''R1'' ''O'' None sim6))"
    by blast
  ultimately show ?thesis by blast
qed

subsection \<open>The retained capsule\<close>

lemma phase2_storage_key:
  assumes "phase2_data_encryption lib H coins data patient rid sim = (Inr r2, sim_a)"
  shows "sim_a = sim\<lparr>capsule_storage := (capsule_storage sim)
            ((case rid of None \<Rightarrow> patient | Some r \<Rightarrow> if r \<noteq> [] then r else patient) \<mapsto> capsule r2)\<rparr>"
  using assms
  by (auto simp add: phase2_data_encryption_def Let_def split: sum.splits prod.splits)

lemma phase2_sim1_none: "phase2_data_encryption toy_umbral toy_hash 0 ''hello world'' ''O'' None sim1 =
   (Inr \<lparr>ciphertext = ''dlrow olleh'', capsule = ''Ps'', cipher_hash = ''hdlrow olleh'', data_size_bytes = 11\<rparr>,
    sim1\<lparr>capsule_storage := [''O'' \<mapsto> ''Ps'']\<rparr>)"
  by (simp add: phase2_data_encryption_def crypto_sim1 sim1_rest toy_sel cm_defs)

lemma sim2b_eq: "sim2b = sim1\<lparr>capsule_storage := [''O'' \<mapsto> ''Ps'']\<rparr>"
  by (simp add: sim2b_def phase2_sim1_none)

lemma sim5b_parts:
  "consents (blockchain sim5b) = [''O:V:O'' \<mapsto> \<lparr>c_owner_vid = ''O'', c_viewer_vid = ''V'', c_record_id = ''O'', status = ''requested'', capsule_cid = None, capsule_hash = None, created_at = 0, updated_at = 1\<rparr>]"
  "crypto sim5b = crypto sim1" "ipfs sim5b = Map.empty" "capsule_storage sim5b = [''O'' \<mapsto> ''Ps'']"
  by (simp_all add: sim5b_def phase5_access_request_def request_access_def log_audit_def consent_key_def sim2b_eq sim1_rest clock0_def Let_def split: prod.split)

text \<open>
  The lookup by record id succeeds when the record id is the patient's id: the capsule that
  the encryption without a record id retained under \<open>O\<close> is found by the approval for
  the record \<open>O\<close>.
\<close>

theorem capsule_found_under_patient_id_counterexample:
  "fst (phase2_data_encryption toy_umbral toy_hash 0 ''hello world'' ''O'' None sim1) =
     Inr \<lparr>ciphertext = ''dlrow olleh'', capsule = ''Ps'', cipher_hash = ''hdlrow olleh'',
          data_size_bytes = 11\<rparr> \<and>
   capsule_storage sim2b ''O'' = Some ''Ps'' \<and>
   fst (phase6_consent_approval_pre toy_umbral toy_hash toy_cid 0 clock0 ''O'' ''V'' ''O'' None sim5b) =
     Inr \<lparr>p6_owner_vid = ''O'', p6_viewer_vid = ''V'', p6_record_id = ''O'',
          p6_capsule_cid = ''QmFPs'', p6_capsule_hash = ''hFPs'', cfrag = ''FPs''\<rparr>"
proof -
  have "fst (phase6_consent_approval_pre toy_umbral toy_hash toy_cid 0 clock0 ''O'' ''V'' ''O'' None sim5b) =
     Inr \<lparr>p6_owner_vid = ''O'', p6_viewer_vid = ''V'', p6_record_id = ''O'',
          p6_capsule_cid = ''QmFPs'', p6_capsule_hash = ''hFPs'', cfrag = ''FPs''\<rparr>"
    by (simp add: phase6_consent_approval_pre_def sim5b_parts crypto_sim1 toy_sel cm_defs
          approve_access_def consent_key_def Let_def)
  then show ?thesis by (simp add: phase2_sim1_none sim2b_eq)
qed

text \<open>
  Claim C10, as the code has it: when the encryption phase is invoked without a record id
  (\<open>None\<close> or the empty string) and succeeds, the retained capsule is stored under the
  patient's id. In any later state with the same capsule store, for a record id that differs
  from the patient's id and had no capsule before the encryption, an approval that is not
  given the capsule fails with "Original capsule not found", leaving the state unchanged,
  and a retrieval that is not given the capsule and passes the consent, record, download
  and hash checks fails with the same error before any key is loaded.
\<close>

theorem capsule_under_patient_id:
  assumes "rid = None \<or> rid = Some []"
    and "phase2_data_encryption lib H coins data patient rid sim = (Inr r2, sim_a)"
  shows "capsule_storage sim_a = (capsule_storage sim)(patient \<mapsto> capsule r2) \<and>
    (\<forall>sim' record_id.
       capsule_storage sim' = capsule_storage sim_a \<and> record_id \<noteq> patient \<and>
       capsule_storage sim record_id = None \<longrightarrow>
       (\<forall>cidf coins' tm owner viewer.
          phase6_consent_approval_pre lib H cidf coins' tm owner viewer record_id None sim' =
            (Inl (ValueError (''Original capsule not found for record '' @ record_id)), sim')) \<and>
       (\<forall>owner viewer consent rec ct cf.
          get_consent (blockchain sim') owner viewer record_id = Some consent \<and>
          status consent = ''approved'' \<and>
          get_record (blockchain sim') record_id = Some rec \<and>
          download (ipfs sim') (Some (cid rec)) = Inr ct \<and>
          download (ipfs sim') (capsule_cid consent) = Inr cf \<and>
          compute_hash H ct = hash rec \<and> Some (compute_hash H cf) = capsule_hash consent \<longrightarrow>
          phase7_data_retrieval_decryption lib H viewer record_id owner None sim' =
            ([Ev_ipfs_cat (Some (cid rec)), Ev_ipfs_cat (capsule_cid consent),
              Ev_compute_hash ct, Ev_compute_hash cf],
             Inl (ValueError (''Original capsule not found for record '' @ record_id)))))"
proof -
  have st: "capsule_storage sim_a = (capsule_storage sim)(patient \<mapsto> capsule r2)"
  proof -
    from assms(1) have k: "(case rid of None \<Rightarrow> patient | Some r \<Rightarrow> if r \<noteq> [] then r else patient) = patient"
      by auto
    from phase2_storage_key [OF assms(2)] k show ?thesis by simp
  qed
  have p6: "phase6_consent_approval_pre lib H cidf coins' tm owner viewer record_id None sim' =
            (Inl (ValueError (''Original capsule not found for record '' @ record_id)), sim')"
    if "capsule_storage sim' record_id = None" for sim' record_id cidf coins' tm owner viewer
    using that by (simp add: phase6_consent_approval_pre_def)
  have p7: "phase7_data_retrieval_decryption lib H viewer record_id owner None sim' =
            ([Ev_ipfs_cat (Some (cid rec)), Ev_ipfs_cat (capsule_cid consent),
              Ev_compute_hash ct, Ev_compute_hash cf],
             Inl (ValueError (''Original capsule not found for record '' @ record_id)))"
    if "capsule_storage sim' record_id = None"
      "get_consent (blockchain sim') owner viewer record_id = Some consent"
      "status consent = ''approved''"
      "get_record (blockchain sim') record_id = Some rec"
      "download (ipfs sim') (Some (cid rec)) = Inr ct"
      "download (ipfs sim') (capsule_cid consent) = Inr cf"
      "compute_hash H ct = hash rec" "Some (compute_hash H cf) = capsule_hash consent"
    for sim' record_id owner viewer consent rec ct cf
    using that by (simp add: phase7_data_retrieval_decryption_def io_bind_def io_call_def)
  have none: "capsule_storage sim' record_id = None"
    if "capsule_storage sim' = capsule_storage sim_a" "record_id \<noteq> patient"
       "capsule_storage sim record_id = None" for sim' record_id
    using that by (simp add: st)
  have both: "(\<forall>cidf coins' tm owner viewer.
          phase6_consent_approval_pre lib H cidf coins' tm owner viewer record_id None sim' =
            (Inl (ValueError (''Original capsule not found for record '' @ record_id)), sim')) \<and>
       (\<forall>owner viewer consent rec ct cf.
          get_consent (blockchain sim') owner viewer record_id = Some consent \<and>
          status consent = ''approved'' \<and>
          get_record (blockchain sim') record_id = Some rec \<and>
          download (ipfs sim') (Some (cid rec)) = Inr ct \<and>
          download (ipfs sim') (capsule_cid consent) = Inr cf \<and>
          compute_hash H ct = hash rec \<and> Some (compute_hash H cf) = capsule_hash consent \<longrightarrow>
          phase7_data_retrieval_decryption lib H viewer record_id owner None sim' =
            ([Ev_ipfs_cat (Some (cid rec)), Ev_ipfs_cat (capsule_cid consent),
              Ev_compute_hash ct, Ev_compute_hash cf],
             Inl (ValueError (''Original capsule not found for record '' @ record_id))))"
    if h: "capsule_storage sim' = capsule_storage sim_a \<and> record_id \<noteq> patient \<and>
       capsule_storage sim record_id = None" for sim' record_id
  proof -
    from h have n: "capsule_storage sim' record_id = None" by (simp add: none)
    show ?thesis
    proof (intro conjI allI impI)
      fix cidf coins' tm owner viewer
      show "phase6_consent_approval_pre lib H cidf coins' tm owner viewer record_id None sim' =
            (Inl (ValueError (''Original capsule not found for record '' @ record_id)), sim')"
        by (rule p6 [OF n])
    next
      fix owner viewer consent rec ct cf
      assume a: "get_consent (blockchain sim') owner viewer record_id = Some consent \<and>
          status consent = ''approved'' \<and>
          get_record (blockchain sim') record_id = Some rec \<and>
          download (ipfs sim') (Some (cid rec)) = Inr ct \<and>
          download (ipfs sim') (capsule_cid consent) = Inr cf \<and>
          compute_hash H ct = hash rec \<and> Some (compute_hash H cf) = capsule_hash consent"
      show "phase7_data_retrieval_decryption lib H viewer record_id owner None sim' =
            ([Ev_ipfs_cat (Some (cid rec)), Ev_ipfs_cat (capsule_cid consent),
              Ev_compute_hash ct, Ev_compute_hash cf],
             Inl (ValueError (''Original capsule not found for record '' @ record_id)))"
        using a by (intro p7 [OF n]) simp_all
    qed
  qed
  show ?thesis
  proof (rule conjI)
    show "capsule_storage sim_a = (capsule_storage sim)(patient \<mapsto> capsule r2)"
      by (rule st)
  next
    show "\<forall>sim' record_id.
       capsule_storage sim' = capsule_storage sim_a \<and> record_id \<noteq> patient \<and>
       capsule_storage sim record_id = None \<longrightarrow>
       (\<forall>cidf coins' tm owner viewer.
          phase6_consent_approval_pre lib H cidf coins' tm owner viewer record_id None sim' =
            (Inl (ValueError (''Original capsule not found for record '' @ record_id)), sim')) \<and>
       (\<forall>owner viewer consent rec ct cf.
          get_consent (blockchain sim') owner viewer record_id = Some consent \<and>
          status consent = ''approved'' \<and>
          get_record (blockchain sim') record_id = Some rec \<and>
          download (ipfs sim') (Some (cid rec)) = Inr ct \<and>
          download (ipfs sim') (capsule_cid consent) = Inr cf \<and>
          compute_hash H ct = hash rec \<and> Some (compute_hash H cf) = capsule_hash consent \<longrightarrow>
          phase7_data_retrieval_decryption lib H viewer record_id owner None sim' =
            ([Ev_ipfs_cat (Some (cid rec)), Ev_ipfs_cat (capsule_cid consent),
              Ev_compute_hash ct, Ev_compute_hash cf],
             Inl (ValueError (''Original capsule not found for record '' @ record_id))))"
      by (rule allI, rule allI, rule impI, rule both)
  qed
qed

theorem capsule_under_patient_id_witness:
  "capsule_storage sim2b = (capsule_storage sim1)(''O'' \<mapsto> ''Ps'') \<and>
   phase6_consent_approval_pre toy_umbral toy_hash toy_cid 0 clock0 ''O'' ''V'' ''R1'' None sim2b =
     (Inl (ValueError ''Original capsule not found for record R1''), sim2b)"
proof -
  have p2: "phase2_data_encryption toy_umbral toy_hash 0 ''hello world'' ''O'' None sim1 =
      (Inr \<lparr>ciphertext = ''dlrow olleh'', capsule = ''Ps'', cipher_hash = ''hdlrow olleh'',
            data_size_bytes = 11\<rparr>, sim2b)"
    by (simp add: phase2_sim1_none sim2b_eq)
  have n: "(None :: string option) = None \<or> None = Some []" by simp
  note th = capsule_under_patient_id [OF n p2]
  have h: "capsule_storage sim2b = capsule_storage sim2b \<and> ''R1'' \<noteq> ''O'' \<and>
      capsule_storage sim1 ''R1'' = None"
    by (simp add: sim1_rest)
  from th have a: "capsule_storage sim2b = (capsule_storage sim1)(''O'' \<mapsto> ''Ps'')" by simp
  note th6 = th [THEN conjunct2, rule_format, OF h, THEN conjunct1, rule_format]
  have "phase6_consent_approval_pre toy_umbral toy_hash toy_cid 0 clock0 ''O'' ''V'' ''R1'' None sim2b =
     (Inl (ValueError (''Original capsule not found for record '' @ ''R1'')), sim2b)"
    by (rule th6)
  with a show ?thesis by simp
qed

subsection \<open>The delegated round trip\<close>

lemma inj_toy_cid: "inj toy_cid"
  by (simp add: inj_def toy_cid_def)

lemma phase2_ok:
  assumes "load_public_key lib (crypto sim) patient = Inr pk"
    and "pre_encrypt lib c1 pk P = (cap, ct)" and "rid \<noteq> []"
  shows "phase2_data_encryption lib H c1 P patient (Some rid) sim =
     (Inr \<lparr>ciphertext = ct, capsule = capsule_to_bytes lib cap, cipher_hash = H ct,
           data_size_bytes = length P\<rparr>,
      sim\<lparr>capsule_storage := (capsule_storage sim)(rid \<mapsto> capsule_to_bytes lib cap)\<rparr>)"
  using assms by (simp add: phase2_data_encryption_def encrypt_def compute_hash_def)

lemma phase3_ok:
  "phase3_ipfs_storage cidf ct P sim =
     (\<lparr>original_cid = cidf P, encrypted_cid = cidf ct, original_size_bytes = length P,
       encrypted_size_bytes = length ct\<rparr>,
      sim\<lparr>ipfs := (ipfs sim)(cidf P \<mapsto> P, cidf ct \<mapsto> ct)\<rparr>)"
  by (simp add: phase3_ipfs_storage_def upload_def)

lemma phase4_ok:
  assumes "records (blockchain sim) rid = None"
  shows "fst (phase4_onchain_storage tm rid owner uploader c h sim) = Inr ()"
    and "records (blockchain (snd (phase4_onchain_storage tm rid owner uploader c h sim))) rid =
           Some \<lparr>record_id = rid, owner_vid = owner, uploader_vid = uploader, cid = c, hash = h,
                 stored_at = tm 0\<rparr>"
    and "consents (blockchain (snd (phase4_onchain_storage tm rid owner uploader c h sim))) =
           consents (blockchain sim)"
    and "crypto (snd (phase4_onchain_storage tm rid owner uploader c h sim)) = crypto sim"
    and "ipfs (snd (phase4_onchain_storage tm rid owner uploader c h sim)) = ipfs sim"
    and "capsule_storage (snd (phase4_onchain_storage tm rid owner uploader c h sim)) =
           capsule_storage sim"
  using assms by (simp_all add: phase4_onchain_storage_def store_record_def log_audit_def)

lemma phase5_ok:
  assumes "consents (blockchain sim) (consent_key owner viewer rid) = None"
  shows "fst (phase5_access_request tm owner viewer rid sim) = Inr ()"
    and "consents (blockchain (snd (phase5_access_request tm owner viewer rid sim)))
           (consent_key owner viewer rid) =
           Some \<lparr>c_owner_vid = owner, c_viewer_vid = viewer, c_record_id = rid,
                 status = ''requested'', capsule_cid = None, capsule_hash = None,
                 created_at = tm 0, updated_at = tm 1\<rparr>"
    and "records (blockchain (snd (phase5_access_request tm owner viewer rid sim))) =
           records (blockchain sim)"
    and "crypto (snd (phase5_access_request tm owner viewer rid sim)) = crypto sim"
    and "ipfs (snd (phase5_access_request tm owner viewer rid sim)) = ipfs sim"
    and "capsule_storage (snd (phase5_access_request tm owner viewer rid sim)) =
           capsule_storage sim"
  using assms by (simp_all add: phase5_access_request_def request_access_def log_audit_def Let_def)

lemma phase6_ok:
  assumes "(case oc of Some c \<Rightarrow> Some c | None \<Rightarrow> capsule_storage sim rid) = Some ocb"
    and "Capsule_from_bytes lib ocb = Some capx"
    and "load_private_key lib (crypto sim) owner = Inr sk_o"
    and "load_public_key lib (crypto sim) viewer = Inr pk_v"
    and "pre_generate_kfrags lib c2 sk_o sk_o pk_v 1 1 = kf # kfs"
    and "consents (blockchain sim) (consent_key owner viewer rid) = Some c0"
    and "cfb = cfrag_to_bytes lib (pre_reencrypt lib kf capx)"
  shows "fst (phase6_consent_approval_pre lib H cidf c2 tm owner viewer rid oc sim) =
           Inr \<lparr>p6_owner_vid = owner, p6_viewer_vid = viewer, p6_record_id = rid,
                p6_capsule_cid = cidf cfb, p6_capsule_hash = H cfb, cfrag = cfb\<rparr>"
    and "consents (blockchain (snd (phase6_consent_approval_pre lib H cidf c2 tm owner viewer rid oc sim)))
           (consent_key owner viewer rid) =
           Some (c0\<lparr>status := ''approved'', capsule_cid := Some (cidf cfb),
                    capsule_hash := Some (H cfb), updated_at := tm 0\<rparr>)"
    and "records (blockchain (snd (phase6_consent_approval_pre lib H cidf c2 tm owner viewer rid oc sim))) =
           records (blockchain sim)"
    and "crypto (snd (phase6_consent_approval_pre lib H cidf c2 tm owner viewer rid oc sim)) = crypto sim"
    and "ipfs (snd (phase6_consent_approval_pre lib H cidf c2 tm owner viewer rid oc sim)) =
           (ipfs sim)(cidf cfb \<mapsto> cfb)"
    and "capsule_storage (snd (phase6_consent_approval_pre lib H cidf c2 tm owner viewer rid oc sim)) =
           capsule_storage sim"
  using assms
  by (simp_all add: phase6_consent_approval_pre_def generate_reencryption_key_def reencrypt_def
        upload_def compute_hash_def approve_access_def log_audit_def Let_def)

lemma phase7_reaches_decrypt:
  assumes "consents (blockchain sim) (consent_key owner viewer rid) = Some consent"
    and "status consent = ''approved''"
    and "capsule_cid consent = Some ccid" and "capsule_hash consent = Some (H cfb)"
    and "records (blockchain sim) rid = Some rec" and "hash rec = H ct"
    and "ipfs sim (cid rec) = Some ct" and "ipfs sim ccid = Some cfb"
    and "(case oc of Some c \<Rightarrow> Some c | None \<Rightarrow> capsule_storage sim rid) = Some ocb"
    and "load_private_key lib (crypto sim) viewer = Inr sk_v"
    and "load_public_key lib (crypto sim) owner = Inr pk_o"
  shows "phase7_data_retrieval_decryption lib H viewer rid owner oc sim =
     ([Ev_ipfs_cat (Some (cid rec)), Ev_ipfs_cat (Some ccid), Ev_compute_hash ct,
       Ev_compute_hash cfb, Ev_load_private_key viewer, Ev_load_public_key owner] @
      fst (decrypt_with_cfrag lib ct ocb cfb sk_v pk_o),
      case snd (decrypt_with_cfrag lib ct ocb cfb sk_v pk_o) of
        Inl e \<Rightarrow> Inl e
      | Inr plaintext \<Rightarrow> Inr \<lparr>p7_viewer_vid = viewer, p7_record_id = rid,
                               plaintext_size_bytes = length plaintext\<rparr>)"
  using assms
  by (cases "decrypt_with_cfrag lib ct ocb cfb sk_v pk_o")
     (simp add: phase7_data_retrieval_decryption_def get_consent_def get_record_def download_def
        compute_hash_def io_bind_def io_call_def split: sum.split)

lemma decrypt_with_cfrag_ok:
  assumes "Capsule_from_bytes lib cb = Some cap" "CapsuleFrag_from_bytes lib cfb = Some cf"
    and "cfrag_verify lib cf cap pk_o pk_o (sk_public_key lib sk_v) = Some v"
    and "pre_decrypt_reencrypted lib sk_v pk_o cap [v] ct = Some P"
  shows "decrypt_with_cfrag lib ct cb cfb sk_v pk_o =
     ([Ev_Capsule_from_bytes cb, Ev_CapsuleFrag_from_bytes cfb, Ev_public_key sk_v,
       Ev_verify cf cap pk_o pk_o (sk_public_key lib sk_v) (Some v)] @
      [Ev_decrypt_reencrypted sk_v pk_o cap [v] ct (Some P)], Inr P)"
  using assms by (simp add: decrypt_with_cfrag_def io_bind_def io_call_def)

lemma decrypt_with_cfrag_unverified:
  assumes "Capsule_from_bytes lib cb = Some cap" "CapsuleFrag_from_bytes lib cfb = Some cf"
    and "cfrag_verify lib cf cap pk_o pk_o (sk_public_key lib sk_v) = None"
  shows "decrypt_with_cfrag lib ct cb cfb sk_v pk_o =
     ([Ev_Capsule_from_bytes cb, Ev_CapsuleFrag_from_bytes cfb, Ev_public_key sk_v,
       Ev_verify cf cap pk_o pk_o (sk_public_key lib sk_v) None],
      Inl (VerificationError ''cfrag''))"
  using assms by (simp add: decrypt_with_cfrag_def io_bind_def io_call_def)

lemma pre_contract_toy_bound: "pre_contract toy_bound"
  by (auto simp add: pre_contract_def toy_bound_def toy_umbral_def)

lemma decrypt_with_cfrag_no_plaintext:
  assumes cf: "CapsuleFrag_from_bytes lib cfb = Some cf"
    and no: "\<And>c7 v. Capsule_from_bytes lib x = Some c7 \<Longrightarrow>
               cfrag_verify lib cf c7 pk_o pk_o (sk_public_key lib sk_v) = Some v \<Longrightarrow>
               pre_decrypt_reencrypted lib sk_v pk_o c7 [v] ct = None"
  shows "\<exists>tr e. decrypt_with_cfrag lib ct x cfb sk_v pk_o = (tr, Inl e) \<and>
           (\<forall>ev \<in> set tr. \<not> returns_plaintext ev)"
proof -
  let ?D = "decrypt_with_cfrag lib ct x cfb sk_v pk_o"
  have "\<exists>e. snd ?D = Inl e \<and> (\<forall>ev \<in> set (fst ?D). \<not> returns_plaintext ev)"
  proof (cases "Capsule_from_bytes lib x")
    case None
    then show ?thesis
      by (simp add: decrypt_with_cfrag_trace decrypt_with_cfrag_result)
  next
    case c7: (Some c7)
    show ?thesis
    proof (cases "cfrag_verify lib cf c7 pk_o pk_o (sk_public_key lib sk_v)")
      case None
      with c7 cf show ?thesis
        by (simp add: decrypt_with_cfrag_trace decrypt_with_cfrag_result)
    next
      case (Some v)
      from no [OF c7 Some] c7 cf Some show ?thesis
        by (simp add: decrypt_with_cfrag_trace decrypt_with_cfrag_result)
    qed
  qed
  then obtain e where "snd ?D = Inl e" "\<forall>ev \<in> set (fst ?D). \<not> returns_plaintext ev"
    by (elim exE conjE) (rule that)
  then have "?D = (fst ?D, Inl e) \<and> (\<forall>ev \<in> set (fst ?D). \<not> returns_plaintext ev)"
    by (simp add: prod_eq_iff)
  then show ?thesis by (intro exI)
qed

lemma sim1_keys_bound:
  "load_public_key toy_bound (crypto sim1) ''O'' = Inr (sk_public_key toy_bound ''s'')"
  "load_private_key toy_bound (crypto sim1) ''O'' = Inr ''s''"
  "load_public_key toy_bound (crypto sim1) ''V'' = Inr (sk_public_key toy_bound ''sss'')"
  "load_private_key toy_bound (crypto sim1) ''V'' = Inr ''sss''"
  by (simp_all add: crypto_sim1 load_public_key_def load_private_key_def toy_bound_def
        toy_umbral_def)

lemma sim1_fresh:
  "get_record (blockchain sim1) ''R1'' = None"
  "get_consent (blockchain sim1) ''O'' ''V'' ''R1'' = None"
  by (simp_all add: get_record_def get_consent_def sim1_rest)

lemma phase2_bound:
  "phase2_data_encryption toy_bound toy_hash 0 ''hello world'' ''O'' (Some ''R1'') sim1 =
     (Inr \<lparr>ciphertext = ''dlrow olleh'', capsule = ''dlrow olleh'',
           cipher_hash = ''hdlrow olleh'', data_size_bytes = 11\<rparr>,
      sim1\<lparr>capsule_storage := [''R1'' \<mapsto> ''dlrow olleh'']\<rparr>)"
proof -
  have k: "load_public_key toy_bound (crypto sim1) ''O'' = Inr ''Ps''"
    by (simp add: crypto_sim1 load_public_key_def toy_bound_def toy_umbral_def)
  have e: "pre_encrypt toy_bound 0 ''Ps'' ''hello world'' = (''dlrow olleh'', ''dlrow olleh'')"
    by (simp add: toy_bound_def)
  have c: "capsule_to_bytes toy_bound ''dlrow olleh'' = ''dlrow olleh''"
    by (simp add: toy_bound_def toy_umbral_def)
  from phase2_ok [OF k e, of "''R1''" toy_hash] show ?thesis
    by (simp add: c sim1_rest toy_hash_def)
qed

lemma bsim5_parts:
  "records (blockchain bsim5) = [''R1'' \<mapsto> \<lparr>record_id = ''R1'', owner_vid = ''O'', uploader_vid = ''D'', cid = ''Qmdlrow olleh'', hash = ''hdlrow olleh'', stored_at = 0\<rparr>]"
  "consents (blockchain bsim5) = [''O:V:R1'' \<mapsto> \<lparr>c_owner_vid = ''O'', c_viewer_vid = ''V'', c_record_id = ''R1'', status = ''requested'', capsule_cid = None, capsule_hash = None, created_at = 0, updated_at = 1\<rparr>]"
  "crypto bsim5 = crypto sim1"
  "ipfs bsim5 = [''Qmhello world'' \<mapsto> ''hello world'', ''Qmdlrow olleh'' \<mapsto> ''dlrow olleh'']"
  "capsule_storage bsim5 = [''R1'' \<mapsto> ''dlrow olleh'']"
  by (simp_all add: bsim5_def phase2_bound phase3_ok phase4_onchain_storage_def
        phase5_access_request_def store_record_def request_access_def log_audit_def
        consent_key_def sim1_rest toy_cid_def clock0_def Let_def split: prod.split)

lemma bsim6x_parts:
  "fst (phase6_consent_approval_pre toy_bound toy_hash toy_cid 0 clock0 ''O'' ''V'' ''R1''
          (Some ''zyx'') bsim5) =
     Inr \<lparr>p6_owner_vid = ''O'', p6_viewer_vid = ''V'', p6_record_id = ''R1'',
          p6_capsule_cid = ''QmFzyx'', p6_capsule_hash = ''hFzyx'', cfrag = ''Fzyx''\<rparr>"
  "records (blockchain bsim6x) = records (blockchain bsim5)"
  "consents (blockchain bsim6x) = [''O:V:R1'' \<mapsto> \<lparr>c_owner_vid = ''O'', c_viewer_vid = ''V'', c_record_id = ''R1'', status = ''approved'', capsule_cid = Some ''QmFzyx'', capsule_hash = Some ''hFzyx'', created_at = 0, updated_at = 0\<rparr>]"
  "crypto bsim6x = crypto sim1"
  "ipfs bsim6x = [''Qmhello world'' \<mapsto> ''hello world'', ''Qmdlrow olleh'' \<mapsto> ''dlrow olleh'', ''QmFzyx'' \<mapsto> ''Fzyx'']"
  "capsule_storage bsim6x = [''R1'' \<mapsto> ''dlrow olleh'']"
  by (simp_all add: bsim6x_def phase6_consent_approval_pre_def bsim5_parts crypto_sim1
        load_private_key_def load_public_key_def generate_reencryption_key_def reencrypt_def
        upload_def compute_hash_def approve_access_def log_audit_def consent_key_def
        toy_bound_def toy_umbral_def toy_hash_def toy_cid_def clock0_def Let_def)

text \<open>
  A fragment derived from a different capsule does not always fail verification. The
  fragment is verified against the capsule that the retrieval is handed, not against the
  capsule of the encryption: when the approval and the retrieval are both handed the capsule
  \<open>zyx\<close> of another encryption, the fragment of \<open>zyx\<close> verifies, the decryption call is
  made, and it is that call which fails.
\<close>

theorem fragment_of_other_capsule_verifies_counterexample:
  "fst (phase6_consent_approval_pre toy_bound toy_hash toy_cid 0 clock0 ''O'' ''V'' ''R1''
          (Some ''zyx'') bsim5) =
     Inr \<lparr>p6_owner_vid = ''O'', p6_viewer_vid = ''V'', p6_record_id = ''R1'',
          p6_capsule_cid = ''QmFzyx'', p6_capsule_hash = ''hFzyx'', cfrag = ''Fzyx''\<rparr> \<and>
   phase7_data_retrieval_decryption toy_bound toy_hash ''V'' ''R1'' ''O'' (Some ''zyx'') bsim6x =
     ([Ev_ipfs_cat (Some ''Qmdlrow olleh''), Ev_ipfs_cat (Some ''QmFzyx''),
       Ev_compute_hash ''dlrow olleh'', Ev_compute_hash ''Fzyx'',
       Ev_load_private_key ''V'', Ev_load_public_key ''O'',
       Ev_Capsule_from_bytes ''zyx'', Ev_CapsuleFrag_from_bytes ''Fzyx'',
       Ev_public_key ''sss'',
       Ev_verify ''Fzyx'' ''zyx'' ''Ps'' ''Ps'' ''Psss'' (Some ''Fzyx''),
       Ev_decrypt_reencrypted ''sss'' ''Ps'' ''zyx'' [''Fzyx''] ''dlrow olleh'' None],
      Inl (DecryptionError ''decrypt_reencrypted''))"
proof -
  have "phase7_data_retrieval_decryption toy_bound toy_hash ''V'' ''R1'' ''O'' (Some ''zyx'') bsim6x =
     ([Ev_ipfs_cat (Some ''Qmdlrow olleh''), Ev_ipfs_cat (Some ''QmFzyx''),
       Ev_compute_hash ''dlrow olleh'', Ev_compute_hash ''Fzyx'',
       Ev_load_private_key ''V'', Ev_load_public_key ''O'',
       Ev_Capsule_from_bytes ''zyx'', Ev_CapsuleFrag_from_bytes ''Fzyx'',
       Ev_public_key ''sss'',
       Ev_verify ''Fzyx'' ''zyx'' ''Ps'' ''Ps'' ''Psss'' (Some ''Fzyx''),
       Ev_decrypt_reencrypted ''sss'' ''Ps'' ''zyx'' [''Fzyx''] ''dlrow olleh'' None],
      Inl (DecryptionError ''decrypt_reencrypted''))"
    by (simp add: phase7_data_retrieval_decryption_def decrypt_with_cfrag_def bsim6x_parts
          bsim5_parts crypto_sim1 get_consent_def get_record_def consent_key_def io_bind_def
          io_call_def load_private_key_def load_public_key_def download_def compute_hash_def
          toy_bound_def toy_umbral_def toy_hash_def)
  then show ?thesis by (simp add: bsim6x_parts(1))
qed

text \<open>
  Claim C4, as the code has it: let the library satisfy its contract and the content store
  name distinct blobs distinctly; let the key files of owner and viewer hold their key
  pairs, and let the record id be non-empty, not stored, and without a consent entry for the
  triple. Then for every plaintext \<open>P\<close> the phases run through: encryption under the
  owner's key, storage, the record entry, the request, the approval with a fragment of the
  capsule of that encryption (looked up or passed), and the retrieval with that capsule
  (looked up or passed), whose decryption call returns exactly \<open>P\<close> and whose result is
  the length of \<open>P\<close>. When the approval is given a different capsule instead, the retrieval
  raises whatever capsule it is handed, and no decryption call of its run returns a
  plaintext; where the retrieval uses the capsule of the encryption (looked up or passed),
  the error is the failed verification of the fragment and no decryption call is made.
\<close>

theorem delegated_round_trip:
  assumes contract: "pre_contract lib" and cidf: "inj cidf"
    and pk_o: "load_public_key lib (crypto sim) owner = Inr (sk_public_key lib sk_o)"
    and sk_o: "load_private_key lib (crypto sim) owner = Inr sk_o"
    and pk_v: "load_public_key lib (crypto sim) viewer = Inr (sk_public_key lib sk_v)"
    and sk_v: "load_private_key lib (crypto sim) viewer = Inr sk_v"
    and fresh_record: "get_record (blockchain sim) rid = None"
    and fresh_consent: "get_consent (blockchain sim) owner viewer rid = None"
    and rid: "rid \<noteq> []"
  shows "\<exists>r2 s2 r3 s3 s4 s5.
     phase2_data_encryption lib H c1 P owner (Some rid) sim = (Inr r2, s2) \<and>
     phase3_ipfs_storage cidf (ciphertext r2) P s2 = (r3, s3) \<and>
     phase4_onchain_storage tm4 rid owner uploader (encrypted_cid r3) (cipher_hash r2) s3 =
       (Inr (), s4) \<and>
     phase5_access_request tm5 owner viewer rid s4 = (Inr (), s5) \<and>
     (\<forall>oc6 oc7.
        (oc6 = None \<or> oc6 = Some (capsule r2)) \<and> (oc7 = None \<or> oc7 = Some (capsule r2)) \<longrightarrow>
        (\<exists>r6 s6 tr cap v.
           phase6_consent_approval_pre lib H cidf c2 tm6 owner viewer rid oc6 s5 = (Inr r6, s6) \<and>
           phase7_data_retrieval_decryption lib H viewer rid owner oc7 s6 =
             (tr @ [Ev_decrypt_reencrypted sk_v (sk_public_key lib sk_o) cap [v] (ciphertext r2)
                      (Some P)],
              Inr \<lparr>p7_viewer_vid = viewer, p7_record_id = rid,
                    plaintext_size_bytes = length P\<rparr>))) \<and>
     (\<forall>cb' cap'.
        Capsule_from_bytes lib cb' = Some cap' \<and>
        Capsule_from_bytes lib (capsule r2) \<noteq> Some cap' \<longrightarrow>
        (\<exists>r6 s6.
           phase6_consent_approval_pre lib H cidf c2 tm6 owner viewer rid (Some cb') s5 =
             (Inr r6, s6) \<and>
           (\<forall>oc7. \<exists>tr e.
              phase7_data_retrieval_decryption lib H viewer rid owner oc7 s6 = (tr, Inl e) \<and>
              (\<forall>ev \<in> set tr. \<not> returns_plaintext ev) \<and>
              (oc7 = None \<or> oc7 = Some (capsule r2) \<longrightarrow>
                 e = VerificationError ''cfrag'' \<and> (\<forall>ev \<in> set tr. \<not> is_decrypt_event ev)))))"
proof -
  let ?pk_o = "sk_public_key lib sk_o" and ?pk_v = "sk_public_key lib sk_v"
  let ?key = "consent_key owner viewer rid"
  obtain cap ct where enc: "pre_encrypt lib c1 ?pk_o P = (cap, ct)"
    by (cases "pre_encrypt lib c1 ?pk_o P")
  let ?cb = "capsule_to_bytes lib cap"
  define r2 where "r2 = \<lparr>ciphertext = ct, capsule = ?cb, cipher_hash = H ct,
                          data_size_bytes = length P\<rparr>"
  define s2 where "s2 = sim\<lparr>capsule_storage := (capsule_storage sim)(rid \<mapsto> ?cb)\<rparr>"
  define r3 where "r3 = \<lparr>original_cid = cidf P, encrypted_cid = cidf ct,
                          original_size_bytes = length P, encrypted_size_bytes = length ct\<rparr>"
  define s3 where "s3 = s2\<lparr>ipfs := (ipfs s2)(cidf P \<mapsto> P, cidf ct \<mapsto> ct)\<rparr>"
  define s4 where "s4 = snd (phase4_onchain_storage tm4 rid owner uploader (cidf ct) (H ct) s3)"
  define s5 where "s5 = snd (phase5_access_request tm5 owner viewer rid s4)"
  define rec where "rec = \<lparr>record_id = rid, owner_vid = owner, uploader_vid = uploader,
                            cid = cidf ct, hash = H ct, stored_at = tm4 0\<rparr>"
  define c0 where "c0 = \<lparr>c_owner_vid = owner, c_viewer_vid = viewer, c_record_id = rid,
                          status = ''requested'', capsule_cid = None, capsule_hash = None,
                          created_at = tm5 0, updated_at = tm5 1\<rparr>"
  have p2: "phase2_data_encryption lib H c1 P owner (Some rid) sim = (Inr r2, s2)"
    unfolding r2_def s2_def by (rule phase2_ok [OF pk_o enc rid])
  have p3: "phase3_ipfs_storage cidf (ciphertext r2) P s2 = (r3, s3)"
    by (simp add: phase3_ok r2_def r3_def s3_def)
  have r3s: "encrypted_cid r3 = cidf ct" "cipher_hash r2 = H ct" "capsule r2 = ?cb"
    "ciphertext r2 = ct"
    by (simp_all add: r2_def r3_def)
  have rec3: "records (blockchain s3) rid = None"
    using fresh_record by (simp add: s3_def s2_def get_record_def)
  note f4 = phase4_ok [OF rec3, of tm4 owner uploader "cidf ct" "H ct", folded s4_def]
  have p4: "phase4_onchain_storage tm4 rid owner uploader (encrypted_cid r3) (cipher_hash r2) s3 =
       (Inr (), s4)"
    using f4(1) by (simp add: r3s s4_def prod_eq_iff)
  have con4: "consents (blockchain s4) ?key = None"
    using fresh_consent by (simp add: f4(3) s3_def s2_def get_consent_def)
  note f5 = phase5_ok [OF con4, of tm5, folded s5_def]
  have p5: "phase5_access_request tm5 owner viewer rid s4 = (Inr (), s5)"
    using f5(1) by (simp add: s5_def prod_eq_iff)
  have rec5: "records (blockchain s5) rid = Some rec"
    by (simp add: f5(3) f4(2) rec_def)
  have con5: "consents (blockchain s5) ?key = Some c0"
    by (simp add: f5(2) c0_def)
  have cry5: "crypto s5 = crypto sim"
    by (simp add: f5(4) f4(4) s3_def s2_def)
  have ipfs5: "ipfs s5 = (ipfs sim)(cidf P \<mapsto> P, cidf ct \<mapsto> ct)"
    by (simp add: f5(5) f4(5) s3_def s2_def)
  have cs5: "capsule_storage s5 rid = Some ?cb"
    by (simp add: f5(6) f4(6) s3_def s2_def)
  from contract have capb: "Capsule_from_bytes lib ?cb = Some cap"
    by (simp add: pre_contract_def)
  from contract have frag_bytes: "CapsuleFrag_from_bytes lib (cfrag_to_bytes lib cf) = Some cf" for cf
    by (simp add: pre_contract_def)
  from contract have other_capsule:
    "cfrag_verify lib (pre_reencrypt lib kf' cap') cap vk dk rk = None" if "cap' \<noteq> cap"
    for kf' cap' vk dk rk
    using that by (simp add: pre_contract_def)
  from contract have mismatch:
    "pre_decrypt_reencrypted lib sk dk cap' vs ct = None" if "cap' \<noteq> cap" for sk dk cap' vs
  proof -
    from contract have "\<forall>c1 pk P cap ct cap' sk dk vs.
        pre_encrypt lib c1 pk P = (cap, ct) \<and> cap' \<noteq> cap \<longrightarrow>
        pre_decrypt_reencrypted lib sk dk cap' vs ct = None"
      by (simp add: pre_contract_def)
    from this [rule_format, of c1 ?pk_o P cap ct cap' sk dk vs] enc that
    show ?thesis by simp
  qed
  obtain kf kfs where kfs: "pre_generate_kfrags lib c2 sk_o sk_o ?pk_v 1 1 = kf # kfs"
  proof -
    from contract have "pre_generate_kfrags lib c2 sk_o sk_o ?pk_v 1 1 \<noteq> []"
      by (simp add: pre_contract_def)
    then show ?thesis using that by (cases "pre_generate_kfrags lib c2 sk_o sk_o ?pk_v 1 1") auto
  qed
  have run6: "phase6_consent_approval_pre lib H cidf c2 tm6 owner viewer rid oc6 s5 =
        (Inr \<lparr>p6_owner_vid = owner, p6_viewer_vid = viewer, p6_record_id = rid,
              p6_capsule_cid = cidf (cfrag_to_bytes lib (pre_reencrypt lib kf capx)),
              p6_capsule_hash = H (cfrag_to_bytes lib (pre_reencrypt lib kf capx)),
              cfrag = cfrag_to_bytes lib (pre_reencrypt lib kf capx)\<rparr>,
         snd (phase6_consent_approval_pre lib H cidf c2 tm6 owner viewer rid oc6 s5))"
    and run7: "phase7_data_retrieval_decryption lib H viewer rid owner oc7
          (snd (phase6_consent_approval_pre lib H cidf c2 tm6 owner viewer rid oc6 s5)) =
        ([Ev_ipfs_cat (Some (cidf ct)),
          Ev_ipfs_cat (Some (cidf (cfrag_to_bytes lib (pre_reencrypt lib kf capx)))),
          Ev_compute_hash ct,
          Ev_compute_hash (cfrag_to_bytes lib (pre_reencrypt lib kf capx)),
          Ev_load_private_key viewer, Ev_load_public_key owner] @
         fst (decrypt_with_cfrag lib ct (case oc7 of Some c \<Rightarrow> c | None \<Rightarrow> ?cb)
                (cfrag_to_bytes lib (pre_reencrypt lib kf capx)) sk_v ?pk_o),
         case snd (decrypt_with_cfrag lib ct (case oc7 of Some c \<Rightarrow> c | None \<Rightarrow> ?cb)
                     (cfrag_to_bytes lib (pre_reencrypt lib kf capx)) sk_v ?pk_o) of
           Inl e \<Rightarrow> Inl e
         | Inr plaintext \<Rightarrow> Inr \<lparr>p7_viewer_vid = viewer, p7_record_id = rid,
                                  plaintext_size_bytes = length plaintext\<rparr>)"
    if l6: "(case oc6 of Some c \<Rightarrow> Some c | None \<Rightarrow> capsule_storage s5 rid) = Some ocb"
      and cx: "Capsule_from_bytes lib ocb = Some capx"
    for oc6 oc7 ocb capx
  proof -
    let ?cfb = "cfrag_to_bytes lib (pre_reencrypt lib kf capx)"
    let ?p6 = "phase6_consent_approval_pre lib H cidf c2 tm6 owner viewer rid oc6 s5"
    note f6 = phase6_ok [OF l6 cx, of owner sk_o viewer ?pk_v c2 kf kfs c0 ?cfb H cidf tm6,
        unfolded cry5, OF sk_o pk_v kfs con5 refl]
    show "?p6 = (Inr \<lparr>p6_owner_vid = owner, p6_viewer_vid = viewer, p6_record_id = rid,
                p6_capsule_cid = cidf ?cfb, p6_capsule_hash = H ?cfb, cfrag = ?cfb\<rparr>, snd ?p6)"
      using f6(1) by (simp add: prod_eq_iff)
    have ct_there: "ipfs (snd ?p6) (cidf ct) = Some ct"
      using cidf by (auto simp add: f6(5) ipfs5 inj_def)
    have l7: "(case oc7 of Some c \<Rightarrow> Some c | None \<Rightarrow> capsule_storage (snd ?p6) rid) =
        Some (case oc7 of Some c \<Rightarrow> c | None \<Rightarrow> ?cb)"
      by (cases oc7) (simp_all add: f6(6) cs5)
    have b: "phase7_data_retrieval_decryption lib H viewer rid owner oc7 (snd ?p6) =
        ([Ev_ipfs_cat (Some (cid rec)), Ev_ipfs_cat (Some (cidf ?cfb)), Ev_compute_hash ct,
          Ev_compute_hash ?cfb, Ev_load_private_key viewer, Ev_load_public_key owner] @
         fst (decrypt_with_cfrag lib ct (case oc7 of Some c \<Rightarrow> c | None \<Rightarrow> ?cb) ?cfb sk_v ?pk_o),
         case snd (decrypt_with_cfrag lib ct (case oc7 of Some c \<Rightarrow> c | None \<Rightarrow> ?cb) ?cfb
                     sk_v ?pk_o) of
           Inl e \<Rightarrow> Inl e
         | Inr plaintext \<Rightarrow> Inr \<lparr>p7_viewer_vid = viewer, p7_record_id = rid,
                                  plaintext_size_bytes = length plaintext\<rparr>)"
    proof (rule phase7_reaches_decrypt [OF f6(2)])
      show "records (blockchain (snd ?p6)) rid = Some rec" by (simp add: f6(3) rec5)
      show "hash rec = H ct" by (simp add: rec_def)
      show "ipfs (snd ?p6) (cid rec) = Some ct" using ct_there by (simp add: rec_def)
      show "ipfs (snd ?p6) (cidf ?cfb) = Some ?cfb" by (simp add: f6(5))
      show "(case oc7 of Some c \<Rightarrow> Some c | None \<Rightarrow> capsule_storage (snd ?p6) rid) =
          Some (case oc7 of Some c \<Rightarrow> c | None \<Rightarrow> ?cb)"
        by (rule l7)
      show "load_private_key lib (crypto (snd ?p6)) viewer = Inr sk_v" by (simp add: f6(4) sk_v)
      show "load_public_key lib (crypto (snd ?p6)) owner = Inr ?pk_o" by (simp add: f6(4) pk_o)
    qed simp_all
    from b show "phase7_data_retrieval_decryption lib H viewer rid owner oc7 (snd ?p6) =
        ([Ev_ipfs_cat (Some (cidf ct)), Ev_ipfs_cat (Some (cidf ?cfb)), Ev_compute_hash ct,
          Ev_compute_hash ?cfb, Ev_load_private_key viewer, Ev_load_public_key owner] @
         fst (decrypt_with_cfrag lib ct (case oc7 of Some c \<Rightarrow> c | None \<Rightarrow> ?cb) ?cfb sk_v ?pk_o),
         case snd (decrypt_with_cfrag lib ct (case oc7 of Some c \<Rightarrow> c | None \<Rightarrow> ?cb) ?cfb
                     sk_v ?pk_o) of
           Inl e \<Rightarrow> Inl e
         | Inr plaintext \<Rightarrow> Inr \<lparr>p7_viewer_vid = viewer, p7_record_id = rid,
                                  plaintext_size_bytes = length plaintext\<rparr>)"
      by (simp add: rec_def)
  qed
  have same: "(case oc7 of Some c \<Rightarrow> c | None \<Rightarrow> ?cb) = ?cb"
    if "oc7 = None \<or> oc7 = Some ?cb" for oc7
    using that by auto
  have partA: "\<exists>r6 s6 tr cap v.
           phase6_consent_approval_pre lib H cidf c2 tm6 owner viewer rid oc6 s5 = (Inr r6, s6) \<and>
           phase7_data_retrieval_decryption lib H viewer rid owner oc7 s6 =
             (tr @ [Ev_decrypt_reencrypted sk_v ?pk_o cap [v] ct (Some P)],
              Inr \<lparr>p7_viewer_vid = viewer, p7_record_id = rid,
                    plaintext_size_bytes = length P\<rparr>)"
    if o6: "oc6 = None \<or> oc6 = Some ?cb" and o7: "oc7 = None \<or> oc7 = Some ?cb" for oc6 oc7
  proof -
    let ?cf = "pre_reencrypt lib kf cap"
    let ?p6 = "phase6_consent_approval_pre lib H cidf c2 tm6 owner viewer rid oc6 s5"
    from o6 have l6: "(case oc6 of Some c \<Rightarrow> Some c | None \<Rightarrow> capsule_storage s5 rid) = Some ?cb"
      by (auto simp add: cs5)
    obtain v where
      v: "cfrag_verify lib ?cf cap ?pk_o ?pk_o ?pk_v = Some v"
        "pre_decrypt_reencrypted lib sk_v ?pk_o cap [v] ct = Some P"
    proof -
      from contract have "\<forall>c1 c2 sk_d sk_r P cap ct kf.
        pre_encrypt lib c1 (sk_public_key lib sk_d) P = (cap, ct) \<and>
        kf \<in> set (pre_generate_kfrags lib c2 sk_d sk_d (sk_public_key lib sk_r) 1 1) \<longrightarrow>
        (\<exists>v. cfrag_verify lib (pre_reencrypt lib kf cap) cap (sk_public_key lib sk_d)
                (sk_public_key lib sk_d) (sk_public_key lib sk_r) = Some v \<and>
             pre_decrypt_reencrypted lib sk_r (sk_public_key lib sk_d) cap [v] ct = Some P)"
        by (simp add: pre_contract_def)
      from this [rule_format, of c1 sk_o P cap ct kf c2 sk_v] enc kfs
      show ?thesis using that by auto
    qed
    note d = decrypt_with_cfrag_ok [OF capb frag_bytes v]
    let ?tr = "[Ev_ipfs_cat (Some (cidf ct)), Ev_ipfs_cat (Some (cidf (cfrag_to_bytes lib ?cf))),
          Ev_compute_hash ct, Ev_compute_hash (cfrag_to_bytes lib ?cf),
          Ev_load_private_key viewer, Ev_load_public_key owner,
          Ev_Capsule_from_bytes ?cb, Ev_CapsuleFrag_from_bytes (cfrag_to_bytes lib ?cf),
          Ev_public_key sk_v, Ev_verify ?cf cap ?pk_o ?pk_o ?pk_v (Some v)]"
    have b': "phase7_data_retrieval_decryption lib H viewer rid owner oc7 (snd ?p6) =
        (?tr @ [Ev_decrypt_reencrypted sk_v ?pk_o cap [v] ct (Some P)],
         Inr \<lparr>p7_viewer_vid = viewer, p7_record_id = rid, plaintext_size_bytes = length P\<rparr>)"
      unfolding run7 [OF l6 capb] same [OF o7] d by simp
    show ?thesis
      by (rule exI, rule exI [of _ "snd ?p6"], rule exI [of _ ?tr], rule exI [of _ cap],
          rule exI [of _ v], rule conjI, rule run6 [OF l6 capb], rule b')
  qed
  have partB: "\<exists>r6 s6.
           phase6_consent_approval_pre lib H cidf c2 tm6 owner viewer rid (Some cb') s5 =
             (Inr r6, s6) \<and>
           (\<forall>oc7. \<exists>tr e.
              phase7_data_retrieval_decryption lib H viewer rid owner oc7 s6 = (tr, Inl e) \<and>
              (\<forall>ev \<in> set tr. \<not> returns_plaintext ev) \<and>
              (oc7 = None \<or> oc7 = Some ?cb \<longrightarrow>
                 e = VerificationError ''cfrag'' \<and> (\<forall>ev \<in> set tr. \<not> is_decrypt_event ev)))"
    if c': "Capsule_from_bytes lib cb' = Some cap'" and ne: "cap' \<noteq> cap" for cb' cap'
  proof -
    let ?cf = "pre_reencrypt lib kf cap'"
    let ?cfb = "cfrag_to_bytes lib ?cf"
    let ?p6 = "phase6_consent_approval_pre lib H cidf c2 tm6 owner viewer rid (Some cb') s5"
    let ?pre = "[Ev_ipfs_cat (Some (cidf ct)), Ev_ipfs_cat (Some (cidf ?cfb)),
          Ev_compute_hash ct, Ev_compute_hash ?cfb,
          Ev_load_private_key viewer, Ev_load_public_key owner]"
    have l6: "(case Some cb' of Some c \<Rightarrow> Some c | None \<Rightarrow> capsule_storage s5 rid) = Some cb'"
      by simp
    have v: "cfrag_verify lib ?cf cap ?pk_o ?pk_o ?pk_v = None"
      by (rule other_capsule [OF ne])
    have each: "\<exists>tr e.
              phase7_data_retrieval_decryption lib H viewer rid owner oc7 (snd ?p6) = (tr, Inl e) \<and>
              (\<forall>ev \<in> set tr. \<not> returns_plaintext ev) \<and>
              (oc7 = None \<or> oc7 = Some ?cb \<longrightarrow>
                 e = VerificationError ''cfrag'' \<and> (\<forall>ev \<in> set tr. \<not> is_decrypt_event ev))" for oc7
    proof (cases "oc7 = None \<or> oc7 = Some ?cb")
      case True
      note d = decrypt_with_cfrag_unverified [OF capb frag_bytes v, of ct]
      let ?tr = "?pre @ [Ev_Capsule_from_bytes ?cb, Ev_CapsuleFrag_from_bytes ?cfb,
          Ev_public_key sk_v, Ev_verify ?cf cap ?pk_o ?pk_o ?pk_v None]"
      have b': "phase7_data_retrieval_decryption lib H viewer rid owner oc7 (snd ?p6) =
          (?tr, Inl (VerificationError ''cfrag''))"
        unfolding run7 [OF l6 c'] same [OF True] d by simp
      have c: "\<forall>ev \<in> set ?tr. \<not> is_decrypt_event ev" by simp
      have c2: "\<forall>ev \<in> set ?tr. \<not> returns_plaintext ev" by simp
      show ?thesis
        by (rule exI [of _ ?tr], rule exI [of _ "VerificationError ''cfrag''"], intro conjI impI,
            rule b', rule c2, rule refl, rule c)
    next
      case False
      let ?x = "case oc7 of Some c \<Rightarrow> c | None \<Rightarrow> ?cb"
      have no: "pre_decrypt_reencrypted lib sk_v ?pk_o c7 [w] ct = None"
        if "Capsule_from_bytes lib ?x = Some c7"
          and w: "cfrag_verify lib ?cf c7 ?pk_o ?pk_o ?pk_v = Some w" for c7 w
      proof -
        from w v have "c7 \<noteq> cap" by auto
        then show ?thesis by (rule mismatch)
      qed
      have "\<exists>tr e. decrypt_with_cfrag lib ct ?x ?cfb sk_v ?pk_o = (tr, Inl e) \<and>
          (\<forall>ev \<in> set tr. \<not> returns_plaintext ev)"
      proof (rule decrypt_with_cfrag_no_plaintext)
        show "CapsuleFrag_from_bytes lib ?cfb = Some ?cf" by (rule frag_bytes)
        show "pre_decrypt_reencrypted lib sk_v ?pk_o c7 [w] ct = None"
          if "Capsule_from_bytes lib ?x = Some c7"
            and "cfrag_verify lib ?cf c7 ?pk_o ?pk_o ?pk_v = Some w" for c7 w
          using that by (rule no)
      qed
      then obtain tr e where
        d: "decrypt_with_cfrag lib ct ?x ?cfb sk_v ?pk_o = (tr, Inl e)"
        and np: "\<forall>ev \<in> set tr. \<not> returns_plaintext ev"
        by (elim exE conjE) (rule that)
      have b': "phase7_data_retrieval_decryption lib H viewer rid owner oc7 (snd ?p6) =
          (?pre @ tr, Inl e)"
        unfolding run7 [OF l6 c'] d by simp
      from np have c2: "\<forall>ev \<in> set (?pre @ tr). \<not> returns_plaintext ev" by simp
      from False show ?thesis
        by (intro exI [of _ "?pre @ tr"] exI [of _ e] conjI impI b' c2) simp_all
    qed
    show ?thesis
      by (rule exI, rule exI [of _ "snd ?p6"], rule conjI, rule run6 [OF l6 c'], rule allI,
          rule each)
  qed
  show ?thesis
  proof (intro exI conjI)
    show "phase2_data_encryption lib H c1 P owner (Some rid) sim = (Inr r2, s2)" by (rule p2)
    show "phase3_ipfs_storage cidf (ciphertext r2) P s2 = (r3, s3)" by (rule p3)
    show "phase4_onchain_storage tm4 rid owner uploader (encrypted_cid r3) (cipher_hash r2) s3 =
       (Inr (), s4)" by (rule p4)
    show "phase5_access_request tm5 owner viewer rid s4 = (Inr (), s5)" by (rule p5)
    show "\<forall>oc6 oc7.
        (oc6 = None \<or> oc6 = Some (capsule r2)) \<and> (oc7 = None \<or> oc7 = Some (capsule r2)) \<longrightarrow>
        (\<exists>r6 s6 tr cap v.
           phase6_consent_approval_pre lib H cidf c2 tm6 owner viewer rid oc6 s5 = (Inr r6, s6) \<and>
           phase7_data_retrieval_decryption lib H viewer rid owner oc7 s6 =
             (tr @ [Ev_decrypt_reencrypted sk_v (sk_public_key lib sk_o) cap [v] (ciphertext r2)
                      (Some P)],
              Inr \<lparr>p7_viewer_vid = viewer, p7_record_id = rid,
                    plaintext_size_bytes = length P\<rparr>))"
      unfolding r3s by (intro allI impI, elim conjE, rule partA)
    show "\<forall>cb' cap'.
        Capsule_from_bytes lib cb' = Some cap' \<and>
        Capsule_from_bytes lib (capsule r2) \<noteq> Some cap' \<longrightarrow>
        (\<exists>r6 s6.
           phase6_consent_approval_pre lib H cidf c2 tm6 owner viewer rid (Some cb') s5 =
             (Inr r6, s6) \<and>
           (\<forall>oc7. \<exists>tr e.
              phase7_data_retrieval_decryption lib H viewer rid owner oc7 s6 = (tr, Inl e) \<and>
              (\<forall>ev \<in> set tr. \<not> returns_plaintext ev) \<and>
              (oc7 = None \<or> oc7 = Some (capsule r2) \<longrightarrow>
                 e = VerificationError ''cfrag'' \<and> (\<forall>ev \<in> set tr. \<not> is_decrypt_event ev))))"
      unfolding r3s capb
    proof (intro allI impI, elim conjE)
      fix cb' cap'
      assume "Capsule_from_bytes lib cb' = Some cap'" "Some cap \<noteq> Some cap'"
      then show "\<exists>r6 s6.
           phase6_consent_approval_pre lib H cidf c2 tm6 owner viewer rid (Some cb') s5 =
             (Inr r6, s6) \<and>
           (\<forall>oc7. \<exists>tr e.
              phase7_data_retrieval_decryption lib H viewer rid owner oc7 s6 = (tr, Inl e) \<and>
              (\<forall>ev \<in> set tr. \<not> returns_plaintext ev) \<and>
              (oc7 = None \<or> oc7 = Some ?cb \<longrightarrow>
                 e = VerificationError ''cfrag'' \<and> (\<forall>ev \<in> set tr. \<not> is_decrypt_event ev)))"
        by (intro partB) auto
    qed
  qed
qed

theorem delegated_round_trip_witness:
  "snd (phase7_data_retrieval_decryption toy_bound toy_hash ''V'' ''R1'' ''O'' None bsim6) =
     Inr \<lparr>p7_viewer_vid = ''V'', p7_record_id = ''R1'', plaintext_size_bytes = 11\<rparr> \<and>
   (\<exists>tr cap v.
      fst (phase7_data_retrieval_decryption toy_bound toy_hash ''V'' ''R1'' ''O'' None bsim6) =
        tr @ [Ev_decrypt_reencrypted ''sss'' ''Ps'' cap [v] ''dlrow olleh'' (Some ''hello world'')]) \<and>
   snd (phase7_data_retrieval_decryption toy_bound toy_hash ''V'' ''R1'' ''O'' None bsim6x) =
     Inl (VerificationError ''cfrag'') \<and>
   (\<exists>e. snd (phase7_data_retrieval_decryption toy_bound toy_hash ''V'' ''R1'' ''O''
               (Some ''zyx'') bsim6x) = Inl e)"
proof -
  have rid: "''R1'' \<noteq> []" by simp
  note th = delegated_round_trip [OF pre_contract_toy_bound inj_toy_cid sim1_keys_bound sim1_fresh
      rid, where H = toy_hash and ?c1.0 = 0 and P = "''hello world''" and ?tm4.0 = clock0
        and uploader = "''D''" and ?tm5.0 = clock0 and ?c2.0 = 0 and ?tm6.0 = clock0]
  from th obtain r2 s2 r3 s3 s4 s5 where
    p2: "phase2_data_encryption toy_bound toy_hash 0 ''hello world'' ''O'' (Some ''R1'') sim1 =
           (Inr r2, s2)"
    and p3: "phase3_ipfs_storage toy_cid (ciphertext r2) ''hello world'' s2 = (r3, s3)"
    and p4: "phase4_onchain_storage clock0 ''R1'' ''O'' ''D'' (encrypted_cid r3) (cipher_hash r2) s3 =
           (Inr (), s4)"
    and p5: "phase5_access_request clock0 ''O'' ''V'' ''R1'' s4 = (Inr (), s5)"
    and a: "\<forall>oc6 oc7.
        (oc6 = None \<or> oc6 = Some (capsule r2)) \<and> (oc7 = None \<or> oc7 = Some (capsule r2)) \<longrightarrow>
        (\<exists>r6 s6 tr cap v.
           phase6_consent_approval_pre toy_bound toy_hash toy_cid 0 clock0 ''O'' ''V'' ''R1'' oc6 s5 =
             (Inr r6, s6) \<and>
           phase7_data_retrieval_decryption toy_bound toy_hash ''V'' ''R1'' ''O'' oc7 s6 =
             (tr @ [Ev_decrypt_reencrypted ''sss'' (sk_public_key toy_bound ''s'') cap [v]
                      (ciphertext r2) (Some ''hello world'')],
              Inr \<lparr>p7_viewer_vid = ''V'', p7_record_id = ''R1'',
                    plaintext_size_bytes = length ''hello world''\<rparr>))"
    and b: "\<forall>cb' cap'.
        Capsule_from_bytes toy_bound cb' = Some cap' \<and>
        Capsule_from_bytes toy_bound (capsule r2) \<noteq> Some cap' \<longrightarrow>
        (\<exists>r6 s6.
           phase6_consent_approval_pre toy_bound toy_hash toy_cid 0 clock0 ''O'' ''V'' ''R1''
               (Some cb') s5 = (Inr r6, s6) \<and>
           (\<forall>oc7. \<exists>tr e.
              phase7_data_retrieval_decryption toy_bound toy_hash ''V'' ''R1'' ''O'' oc7 s6 =
                (tr, Inl e) \<and>
              (\<forall>ev \<in> set tr. \<not> returns_plaintext ev) \<and>
              (oc7 = None \<or> oc7 = Some (capsule r2) \<longrightarrow>
                 e = VerificationError ''cfrag'' \<and> (\<forall>ev \<in> set tr. \<not> is_decrypt_event ev))))"
    by (elim exE conjE) (rule that)
  from p2 have r2: "r2 = \<lparr>ciphertext = ''dlrow olleh'', capsule = ''dlrow olleh'',
      cipher_hash = ''hdlrow olleh'', data_size_bytes = 11\<rparr>"
    and s2: "s2 = snd (phase2_data_encryption toy_bound toy_hash 0 ''hello world'' ''O''
                        (Some ''R1'') sim1)"
    by (simp_all add: phase2_bound)
  from p3 have r3: "r3 = \<lparr>original_cid = ''Qmhello world'', encrypted_cid = ''Qmdlrow olleh'',
      original_size_bytes = 11, encrypted_size_bytes = 11\<rparr>"
    and s3: "s3 = snd (phase3_ipfs_storage toy_cid ''dlrow olleh'' ''hello world'' s2)"
    unfolding r2 by (auto simp add: phase3_ok toy_cid_def)
  from p4 have s4: "s4 = snd (phase4_onchain_storage clock0 ''R1'' ''O'' ''D'' ''Qmdlrow olleh''
                               ''hdlrow olleh'' s3)"
    unfolding r2 r3 by simp
  from p5 have s5: "s5 = bsim5"
    unfolding s4 s3 s2 by (simp add: bsim5_def)
  have n: "((None :: bytes option) = None \<or> None = Some (capsule r2)) \<and>
      ((None :: bytes option) = None \<or> None = Some (capsule r2))"
    by simp
  from a [rule_format, OF n] obtain r6 s6 tr cap v where
    p6: "phase6_consent_approval_pre toy_bound toy_hash toy_cid 0 clock0 ''O'' ''V'' ''R1'' None s5 =
             (Inr r6, s6)"
    and p7: "phase7_data_retrieval_decryption toy_bound toy_hash ''V'' ''R1'' ''O'' None s6 =
             (tr @ [Ev_decrypt_reencrypted ''sss'' (sk_public_key toy_bound ''s'') cap [v]
                      (ciphertext r2) (Some ''hello world'')],
              Inr \<lparr>p7_viewer_vid = ''V'', p7_record_id = ''R1'',
                    plaintext_size_bytes = length ''hello world''\<rparr>)"
    by (elim exE conjE) (rule that)
  from p6 have s6: "s6 = bsim6"
    unfolding s5 by (simp add: bsim6_def)
  have pk: "sk_public_key toy_bound ''s'' = ''Ps''" by (simp add: toy_bound_def toy_umbral_def)
  from p7 have first: "snd (phase7_data_retrieval_decryption toy_bound toy_hash ''V'' ''R1'' ''O'' None bsim6) =
     Inr \<lparr>p7_viewer_vid = ''V'', p7_record_id = ''R1'', plaintext_size_bytes = 11\<rparr>"
    unfolding s6 by simp
  from p7 have second: "\<exists>tr cap v.
      fst (phase7_data_retrieval_decryption toy_bound toy_hash ''V'' ''R1'' ''O'' None bsim6) =
        tr @ [Ev_decrypt_reencrypted ''sss'' ''Ps'' cap [v] ''dlrow olleh'' (Some ''hello world'')]"
    unfolding s6 r2 pk by (intro exI [of _ tr] exI [of _ cap] exI [of _ v]) simp
  have c: "Capsule_from_bytes toy_bound ''zyx'' = Some ''zyx'' \<and>
        Capsule_from_bytes toy_bound (capsule r2) \<noteq> Some ''zyx''"
    by (simp add: r2 toy_bound_def toy_umbral_def)
  from b [rule_format, OF c] obtain r6' s6' where
    p6': "phase6_consent_approval_pre toy_bound toy_hash toy_cid 0 clock0 ''O'' ''V'' ''R1''
               (Some ''zyx'') s5 = (Inr r6', s6')"
    and all7: "\<forall>oc7. \<exists>tr e.
              phase7_data_retrieval_decryption toy_bound toy_hash ''V'' ''R1'' ''O'' oc7 s6' =
                (tr, Inl e) \<and>
              (\<forall>ev \<in> set tr. \<not> returns_plaintext ev) \<and>
              (oc7 = None \<or> oc7 = Some (capsule r2) \<longrightarrow>
                 e = VerificationError ''cfrag'' \<and> (\<forall>ev \<in> set tr. \<not> is_decrypt_event ev))"
    by (elim exE conjE) (rule that)
  from p6' have s6': "s6' = bsim6x"
    unfolding s5 by (simp add: bsim6x_def)
  from all7 [rule_format, of None] have third:
    "snd (phase7_data_retrieval_decryption toy_bound toy_hash ''V'' ''R1'' ''O'' None bsim6x) =
       Inl (VerificationError ''cfrag'')"
    unfolding s6' by auto
  from all7 [rule_format, of "Some ''zyx''"] have fourth:
    "\<exists>e. snd (phase7_data_retrieval_decryption toy_bound toy_hash ''V'' ''R1'' ''O''
               (Some ''zyx'') bsim6x) = Inl e"
    unfolding s6' by auto
  from first second third fourth show ?thesis by (intro conjI)
qed

end
